theory Spec2Isabelle
  imports Main "HOL-Library.Sublist" "HOL-Library.Monad_Syntax"
begin

section \<open>Validation utilities of the wallet front end\<close>

text \<open>
  The module under study is the validator library of the wallet: address validation,
  transaction-fee classification and JSON-RPC response validation. Every function of it is
  pure. JavaScript strings are modelled as \<open>string\<close>; the characters the module inspects
  (hex digits, decimal digits, \<open>x\<close>, \<open>.\<close>, \<open>:\<close>, line feed) are all ASCII.

  The module calls into packages that are not part of it (\<open>ethereumjs-util\<close>, \<open>rskjs-util\<close>,
  \<open>ethers\<close>, \<open>jsonschema\<close>) and into helpers of the application whose text is not at hand
  (\<open>@utils\<close>, \<open>@config\<close>). Each such function is a parameter of the model, typed after its
  TypeScript signature. The string functions among them are taken to return on every
  argument; the functions that read a number out of a string (\<open>bigNumberify\<close>,
  \<open>gasStringsToMaxGasBN\<close>) may raise, and return an \<open>option\<close>, \<open>None\<close> standing for the raise.
  The theorems hold for every choice of these parameters unless a hypothesis says otherwise.
\<close>

subsection \<open>Character classes of the regular expressions\<close>

definition isLowerHex :: "char \<Rightarrow> bool" where
  \<comment> \<open>\<open>[a-f0-9]\<close>\<close>
  "isLowerHex c = (c \<in> set ''abcdef0123456789'')"

definition isUpperHex :: "char \<Rightarrow> bool" where
  \<comment> \<open>\<open>[A-F0-9]\<close>\<close>
  "isUpperHex c = (c \<in> set ''ABCDEF0123456789'')"

definition isMixedHex :: "char \<Rightarrow> bool" where
  \<comment> \<open>\<open>[a-fA-F0-9]\<close>\<close>
  "isMixedHex c = (c \<in> set ''abcdefABCDEF0123456789'')"

definition isDecimalDigit :: "char \<Rightarrow> bool" where
  \<comment> \<open>\<open>[0-9]\<close>\<close>
  "isDecimalDigit c = (c \<in> set ''0123456789'')"

subsection \<open>Address validation\<close>

definition isChecksumAddress :: "(string \<Rightarrow> string) \<Rightarrow> string \<Rightarrow> bool" where
  \<comment> \<open>\<open>address === toChecksumAddress(address)\<close>; \<open>toChecksumAddress\<close> comes from
      \<open>ethereumjs-util\<close> and is a parameter.\<close>
  "isChecksumAddress toChecksumAddress address = (address = toChecksumAddress address)"

definition isValidMixedCaseETHAddress :: "string \<Rightarrow> bool" where
  \<comment> \<open>\<open>/^(0(x|X)[a-fA-F0-9]{40})$/.test(address)\<close>\<close>
  "isValidMixedCaseETHAddress address =
     (case address of
        c0 # c1 # digits \<Rightarrow>
          c0 = CHR ''0'' \<and> (c1 = CHR ''x'' \<or> c1 = CHR ''X'') \<and>
          length digits = 40 \<and> list_all isMixedHex digits
      | _ \<Rightarrow> False)"

definition isValidUpperOrLowerCaseETHAddress :: "string \<Rightarrow> bool" where
  \<comment> \<open>\<open>/^(0(x|X)(([a-f0-9]{40})|([A-F0-9]{40})))$/.test(address)\<close>\<close>
  "isValidUpperOrLowerCaseETHAddress address =
     (case address of
        c0 # c1 # digits \<Rightarrow>
          c0 = CHR ''0'' \<and> (c1 = CHR ''x'' \<or> c1 = CHR ''X'') \<and>
          length digits = 40 \<and> (list_all isLowerHex digits \<or> list_all isUpperHex digits)
      | _ \<Rightarrow> False)"

definition isValidETHLikeAddress :: "string \<Rightarrow> bool \<Rightarrow> bool" where
  "isValidETHLikeAddress address isChecksumValid =
     (let isValidMixedCase = isValidMixedCaseETHAddress address;
          isValidUpperOrLowerCase = isValidUpperOrLowerCaseETHAddress address
      in if \<not> List.member [''0x'', ''0X''] (take 2 address) then False
         else if isValidMixedCase \<and> \<not> isValidUpperOrLowerCase \<and> \<not> isChecksumValid then False
         else if isValidMixedCase \<and> \<not> isValidUpperOrLowerCase \<and> isChecksumValid then True
         else if isValidUpperOrLowerCase \<and> \<not> isValidMixedCase then True
         else if \<not> isValidUpperOrLowerCase \<and> \<not> isValidMixedCase then False
         else True)"

definition isValidETHAddress :: "(string \<Rightarrow> string) \<Rightarrow> string \<Rightarrow> bool" where
  "isValidETHAddress toChecksumAddress address =
     isValidETHLikeAddress address (isChecksumAddress toChecksumAddress address)"

definition isValidRSKAddress :: "(string \<Rightarrow> int \<Rightarrow> bool) \<Rightarrow> string \<Rightarrow> int \<Rightarrow> bool" where
  \<comment> \<open>\<open>isValidChecksumRSKAddress\<close> comes from \<open>rskjs-util\<close> and is a parameter.\<close>
  "isValidRSKAddress isValidChecksumRSKAddress address chainId =
     isValidETHLikeAddress address (isValidChecksumRSKAddress address chainId)"

definition getIsValidAddressFunction ::
  "(string \<Rightarrow> string) \<Rightarrow> (string \<Rightarrow> int \<Rightarrow> bool) \<Rightarrow> int \<Rightarrow> (string \<Rightarrow> bool)" where
  "getIsValidAddressFunction toChecksumAddress isValidChecksumRSKAddress chainId =
     (if chainId = 30 \<or> chainId = 31
      then (\<lambda>address. isValidRSKAddress isValidChecksumRSKAddress address chainId)
      else isValidETHAddress toChecksumAddress)"

definition isValidAddress ::
  "(string \<Rightarrow> string) \<Rightarrow> (string \<Rightarrow> int \<Rightarrow> bool) \<Rightarrow> string \<Rightarrow> int \<Rightarrow> bool" where
  "isValidAddress toChecksumAddress isValidChecksumRSKAddress address chainId =
     getIsValidAddressFunction toChecksumAddress isValidChecksumRSKAddress chainId address"


subsection \<open>Transaction fee classification\<close>

text \<open>
  \<open>validateTxFee\<close> receives three JavaScript numbers and calls helpers of \<open>@utils\<close>, the
  constant \<open>DEFAULT_ASSET_DECIMAL\<close> of \<open>@config\<close>, \<open>bigNumberify\<close> of \<open>ethers\<close> and the
  built-in number operations. They are collected in one record of parameters. The type \<open>'n\<close>
  stands for JavaScript's \<open>number\<close>; arbitrary-precision integers (\<open>BigNumber\<close> of \<open>ethers\<close>,
  \<open>BN\<close> of \<open>bn.js\<close>) are \<open>int\<close>, with exact multiplication and comparison.

  \<open>bigNumberify\<close> raises on a string that is not a number in its eyes, and
  \<open>gasStringsToMaxGasBN\<close> builds big numbers from its two strings and may raise as well: the
  result of each is an \<open>option\<close>, and \<open>None\<close> is the raise. \<open>validateTxFee\<close> catches nothing,
  so a raise of either ends the call; the result of \<open>validateTxFee\<close> is an \<open>option\<close> too, and
  the calls are sequenced in the order in which the program makes them.
\<close>

record 'n lib =
  DEFAULT_ASSET_DECIMAL :: nat
  convertedToBaseUnit :: "string \<Rightarrow> nat \<Rightarrow> string"
  baseToConvertedUnit :: "string \<Rightarrow> nat \<Rightarrow> string"
  gasStringsToMaxGasBN :: "string \<Rightarrow> string \<Rightarrow> int option"
  bnToString :: "int \<Rightarrow> string"
  bigNumberify :: "string \<Rightarrow> int option"
  bigNumberToString :: "int \<Rightarrow> string"
  numToString :: "'n \<Rightarrow> string"
  numTruthy :: "'n \<Rightarrow> bool"
  numGreaterThanZero :: "'n \<Rightarrow> bool"
  numTimes :: "'n \<Rightarrow> 'n \<Rightarrow> 'n"
  numLiteral :: "string \<Rightarrow> 'n"
  parseFloat :: "string \<Rightarrow> 'n"
  toFixed :: "'n \<Rightarrow> nat \<Rightarrow> string"

text \<open>
  \<^item> \<open>bnToString\<close> is \<open>toString\<close> of a \<open>BN\<close>, \<open>bigNumberToString\<close> that of a \<open>BigNumber\<close>;
  \<^item> \<open>numToString\<close> is \<open>Number.prototype.toString\<close>, \<open>numTruthy x\<close> the truthiness of the
    number \<open>x\<close>, \<open>numGreaterThanZero x\<close> the comparison \<open>x > 0\<close>, \<open>numTimes\<close> the product of
    two numbers and \<open>numLiteral\<close> the number a numeric literal of the program text denotes;
  \<^item> \<open>parseFloat\<close> and \<open>toFixed\<close> are the built-ins of these names.

  In \<open>validateTxFee\<close> below, the local functions \<open>getAssetRate\<close>, \<open>getAssetRateLocal\<close> and
  \<open>getEthAssetRate\<close> take no argument and are bound to their results, which are strings.
  \<open>getEthAssetRate\<close> returns the number \<open>0\<close> when no ETH rate is given; it is written \<open>''0''\<close>
  here, and is never read, since the only call is guarded by the rate being truthy. The
  comparisons \<open>lt\<close> and \<open>gte\<close> of a \<open>BigNumber\<close> with a string convert the string with
  \<open>bigNumberify\<close>. In \<open>a || b\<close> and \<open>a && b\<close> the second operand is evaluated only when the
  first does not decide. The optional argument \<open>ethAssetRate\<close> is an \<open>option\<close>, \<open>None\<close> when it
  is left out.

  The classification \<open>'None'\<close> is \<open>Tx_None\<close>, and the members \<open>type\<close>, \<open>amount\<close> and \<open>fee\<close> of a
  \<open>TxFeeResponse\<close> are \<open>resp_type\<close>, \<open>resp_amount\<close> and \<open>resp_fee\<close>: the plain names are taken
  by the constructor of \<open>option\<close> and by the arguments of \<open>validateTxFee\<close>. An optional
  member that is left out is \<open>None\<close>.
\<close>

datatype TxFeeResponseType =
  Warning | Error_Use_Lower | Error_High_Tx_Fee | Error_Very_High_Tx_Fee | Tx_None | Invalid

record TxFeeResponse =
  resp_type :: TxFeeResponseType
  resp_amount :: "string option"
  resp_fee :: "string option"

definition matchesValidInputRegex :: "string \<Rightarrow> bool" where
  \<comment> \<open>\<open>s.match(/^[0-9]+(\.[0-9])?[0-9]*$/)\<close> is not null\<close>
  "matchesValidInputRegex s =
     (takeWhile isDecimalDigit s \<noteq> [] \<and>
      (case dropWhile isDecimalDigit s of
         [] \<Rightarrow> True
       | c # fraction \<Rightarrow> c = CHR ''.'' \<and> fraction \<noteq> [] \<and> list_all isDecimalDigit fraction))"

definition validateTxFee ::
  "'n lib \<Rightarrow> string \<Rightarrow> 'n \<Rightarrow> 'n \<Rightarrow> bool \<Rightarrow> string \<Rightarrow> string \<Rightarrow> 'n option
     \<Rightarrow> TxFeeResponse option" where
  "validateTxFee L amount assetRateUSD assetRateFiat isERC20 gasLimit gasPrice ethAssetRate =
     (if \<not> matchesValidInputRegex amount \<or> \<not> matchesValidInputRegex gasLimit
          \<or> \<not> matchesValidInputRegex gasPrice
      then Some \<lparr>resp_type = Invalid, resp_amount = None, resp_fee = None\<rparr>
      else
        let DEFAULT_RATE_DECIMAL = 4;
            DEFAULT_DECIMAL = DEFAULT_ASSET_DECIMAL L + DEFAULT_RATE_DECIMAL;
            getAssetRate = convertedToBaseUnit L (numToString L assetRateUSD) DEFAULT_RATE_DECIMAL;
            getAssetRateLocal =
              convertedToBaseUnit L (numToString L assetRateFiat) DEFAULT_RATE_DECIMAL;
            ethAssetRateTruthy = (case ethAssetRate of None \<Rightarrow> False | Some r \<Rightarrow> numTruthy L r);
            getEthAssetRate =
              (if ethAssetRateTruthy
               then convertedToBaseUnit L (numToString L assetRateUSD) DEFAULT_RATE_DECIMAL
               else ''0'')
        in do {
          txAmount \<leftarrow> bigNumberify L (convertedToBaseUnit L amount DEFAULT_DECIMAL);
          maxGas \<leftarrow> gasStringsToMaxGasBN L gasPrice gasLimit;
          txFee \<leftarrow> bigNumberify L (bnToString L maxGas);
          assetRate \<leftarrow> bigNumberify L getAssetRate;
          let txFeeFiatValue = assetRate * txFee;
          txTransactionFeeInEthFiatValue \<leftarrow>
            (case ethAssetRate of
               None \<Rightarrow> Some None
             | Some r \<Rightarrow>
                 if numTruthy L r \<and> numGreaterThanZero L r
                 then do {
                   ethRate \<leftarrow> bigNumberify L getEthAssetRate;
                   Some (Some (ethRate * txFee))
                 }
                 else Some None);
          let createTxFeeResponse = (\<lambda>t. do {
                rateForAmount \<leftarrow> bigNumberify L getAssetRateLocal;
                let txAmountFiatLocalValue = rateForAmount * txAmount;
                rateForFee \<leftarrow> bigNumberify L getAssetRateLocal;
                let txFeeFiatLocalValue = rateForFee * txFee;
                Some \<lparr>resp_type = t,
                  resp_amount = Some (toFixed L (parseFloat L (baseToConvertedUnit L
                    (bigNumberToString L txAmountFiatLocalValue)
                    (DEFAULT_DECIMAL + DEFAULT_RATE_DECIMAL))) 4),
                  resp_fee = Some (toFixed L (parseFloat L (baseToConvertedUnit L
                    (bigNumberToString L txFeeFiatLocalValue) DEFAULT_DECIMAL)) 4)\<rparr>
              });
          let isGreaterThanEthFraction = (\<lambda>ethFraction.
                case (ethAssetRate, txTransactionFeeInEthFiatValue) of
                  (Some r, Some feeInEthFiat) \<Rightarrow>
                    if numTruthy L r
                    then do {
                      fractionOfEth \<leftarrow> bigNumberify L (convertedToBaseUnit L
                        (numToString L (numTimes L r ethFraction)) DEFAULT_DECIMAL);
                      Some (feeInEthFiat \<ge> fractionOfEth)
                    }
                    else Some False
                | _ \<Rightarrow> Some False);
          amountFloor \<leftarrow> bigNumberify L (convertedToBaseUnit L ''0.000001'' DEFAULT_DECIMAL);
          if txAmount < amountFloor then createTxFeeResponse Tx_None
          else do {
            limitVeryHigh \<leftarrow> bigNumberify L (convertedToBaseUnit L ''100'' DEFAULT_DECIMAL);
            isVeryHigh \<leftarrow>
              (if txFeeFiatValue > limitVeryHigh then Some True
               else isGreaterThanEthFraction (numLiteral L ''0.5''));
            if isVeryHigh then createTxFeeResponse Error_Very_High_Tx_Fee
            else do {
              limitHigh \<leftarrow> bigNumberify L (convertedToBaseUnit L ''25'' DEFAULT_DECIMAL);
              isHigh \<leftarrow>
                (if txFeeFiatValue > limitHigh then Some True
                 else isGreaterThanEthFraction (numLiteral L ''0.15''));
              if isHigh then createTxFeeResponse Error_High_Tx_Fee
              else do {
                limitUseLower \<leftarrow> bigNumberify L (convertedToBaseUnit L ''5'' DEFAULT_DECIMAL);
                isUseLower \<leftarrow>
                  (if txFeeFiatValue > limitUseLower then Some True
                   else isGreaterThanEthFraction (numLiteral L ''0.025''));
                if isUseLower then createTxFeeResponse Error_Use_Lower
                else do {
                  isWarning \<leftarrow>
                    (if \<not> isERC20
                     then do {
                       feeShifted \<leftarrow> bigNumberify L (convertedToBaseUnit L
                         (bigNumberToString L txFee) DEFAULT_RATE_DECIMAL);
                       Some (txAmount < feeShifted)
                     }
                     else Some False);
                  if isWarning then createTxFeeResponse Warning
                  else createTxFeeResponse Tx_None
                }
              }
            }
          }
        })"

text \<open>
  The quantities the tests compare, named so that statements about \<open>validateTxFee\<close> can
  refer to them. Each is the result of a library call and so an \<open>option\<close>: a decimal text in
  base units (as \<open>txAmount\<close> and the thresholds are computed), the fee in base units
  (\<open>txFee\<close>), a rate as an integer (what \<open>bigNumberify\<close> makes of \<open>getAssetRate()\<close> and of
  \<open>getAssetRateLocal()\<close>), and the value of a fraction of one ETH at a given ETH rate (the
  number \<open>isGreaterThanEthFraction\<close> compares the fiat value of the fee with).
\<close>

definition defaultDecimal :: "'n lib \<Rightarrow> nat" where
  "defaultDecimal L = DEFAULT_ASSET_DECIMAL L + 4"

definition baseUnits :: "'n lib \<Rightarrow> string \<Rightarrow> int option" where
  "baseUnits L decimalText = bigNumberify L (convertedToBaseUnit L decimalText (defaultDecimal L))"

definition txFeeOf :: "'n lib \<Rightarrow> string \<Rightarrow> string \<Rightarrow> int option" where
  "txFeeOf L gasLimit gasPrice =
     do { maxGas \<leftarrow> gasStringsToMaxGasBN L gasPrice gasLimit; bigNumberify L (bnToString L maxGas) }"

definition assetRateOf :: "'n lib \<Rightarrow> 'n \<Rightarrow> int option" where
  "assetRateOf L rate = bigNumberify L (convertedToBaseUnit L (numToString L rate) 4)"

definition valueOfEthFraction :: "'n lib \<Rightarrow> 'n \<Rightarrow> 'n \<Rightarrow> int option" where
  "valueOfEthFraction L ethRate ethFraction =
     baseUnits L (numToString L (numTimes L ethRate ethFraction))"

text \<open>
  What the theorems about amounts ask of the two conversions that are not under \<open>src/\<close>, on
  the decimal texts the input pattern admits: \<open>convertedToBaseUnit\<close> moves the decimal point
  to the right by writing the integer part, the fraction part, and zeros up to the number of
  decimals (asked only of texts whose fraction has no more digits than that);
  \<open>bigNumberify\<close> reads a non-empty string of decimal digits as the number it writes.
\<close>

definition integerPartOf :: "string \<Rightarrow> string" where
  "integerPartOf s = takeWhile (\<lambda>c. c \<noteq> CHR ''.'') s"

definition fractionPartOf :: "string \<Rightarrow> string" where
  "fractionPartOf s = drop 1 (dropWhile (\<lambda>c. c \<noteq> CHR ''.'') s)"

definition padEnd :: "string \<Rightarrow> nat \<Rightarrow> string" where
  "padEnd s n = s @ replicate (n - length s) CHR ''0''"

definition shiftDecimalPoint :: "string \<Rightarrow> nat \<Rightarrow> string" where
  "shiftDecimalPoint v decimal = integerPartOf v @ padEnd (fractionPartOf v) decimal"

definition digitValue :: "char \<Rightarrow> nat" where
  "digitValue c = length (takeWhile (\<lambda>d. d \<noteq> c) ''0123456789'')"

definition parseDecimal :: "string \<Rightarrow> nat" where
  "parseDecimal s = foldl (\<lambda>n c. 10 * n + digitValue c) 0 s"

text \<open>
  The test \<open>isGreaterThanEthFraction\<close> as a function of the fiat value of the fee: when an
  ETH rate is given, truthy and positive, it compares that value with the value of the
  fraction of one ETH, and raises if \<open>bigNumberify\<close> does; otherwise it is false.
\<close>

definition reachesEthFraction :: "'n lib \<Rightarrow> 'n option \<Rightarrow> int \<Rightarrow> 'n \<Rightarrow> bool option" where
  "reachesEthFraction L ethAssetRate feeFiatValue ethFraction =
     (case ethAssetRate of
        None \<Rightarrow> Some False
      | Some r \<Rightarrow>
          if numTruthy L r \<and> numGreaterThanZero L r
          then do {
            fractionOfEth \<leftarrow> valueOfEthFraction L r ethFraction;
            Some (feeFiatValue \<ge> fractionOfEth)
          }
          else Some False)"

text \<open>
  The fiat value of the fee (\<open>txFeeFiatValue\<close>), and the strict form of the comparison with a
  fraction of one ETH: the fiat value of the fee exceeds the value of that fraction, an ETH
  rate being given, truthy and positive, and the value of the fraction being read by
  \<open>bigNumberify\<close>.
\<close>

definition txFeeFiatValueOf :: "'n lib \<Rightarrow> 'n \<Rightarrow> string \<Rightarrow> string \<Rightarrow> int option" where
  "txFeeFiatValueOf L assetRateUSD gasLimit gasPrice =
     do {
       txFee \<leftarrow> txFeeOf L gasLimit gasPrice;
       assetRate \<leftarrow> assetRateOf L assetRateUSD;
       Some (assetRate * txFee)
     }"

definition exceedsEthFraction :: "'n lib \<Rightarrow> 'n option \<Rightarrow> int \<Rightarrow> 'n \<Rightarrow> bool" where
  "exceedsEthFraction L ethAssetRate feeFiatValue ethFraction =
     (case ethAssetRate of
        None \<Rightarrow> False
      | Some r \<Rightarrow>
          numTruthy L r \<and> numGreaterThanZero L r \<and>
          (case valueOfEthFraction L r ethFraction of
             None \<Rightarrow> False
           | Some fractionOfEth \<Rightarrow> feeFiatValue > fractionOfEth))"

subsection \<open>JSON-RPC response validation\<close>

text \<open>
  A response object is read in two places only: the schema validator of \<open>jsonschema\<close> looks
  at all of it, and \<open>formatErrors\<close> reads its \<open>error\<close> member. The record keeps the \<open>error\<close>
  member apart and leaves every other member in \<open>members\<close>. Of an error object the code reads
  \<open>message\<close> and \<open>data\<close>; \<open>data\<close> is used as \<open>data || ''\<close> inside a template string, so it is
  kept as \<open>None\<close> when it is absent or falsy and as \<open>Some\<close> of its string rendering otherwise.
\<close>

record RpcError =
  message :: string
  data :: "string option"

record 'b JsonRPCResponse =
  members :: 'b
  error :: "RpcError option"

datatype schemaFormat = RpcNode

datatype API_NAME =
  Get_Balance | Estimate_Gas | Call_Request | Token_Balance | Transaction_Count
| Current_Block | Raw_Tx | Send_Transaction | Sign_Message | Get_Accounts | Net_Version
| Transaction_By_Hash | Transaction_Receipt | Request_Permissions | Get_Permissions

fun apiNameText :: "API_NAME \<Rightarrow> string" where
  "apiNameText Get_Balance = ''Get Balance''"
| "apiNameText Estimate_Gas = ''Estimate Gas''"
| "apiNameText Call_Request = ''Call Request''"
| "apiNameText Token_Balance = ''Token Balance''"
| "apiNameText Transaction_Count = ''Transaction Count''"
| "apiNameText Current_Block = ''Current Block''"
| "apiNameText Raw_Tx = ''Raw Tx''"
| "apiNameText Send_Transaction = ''Send Transaction''"
| "apiNameText Sign_Message = ''Sign Message''"
| "apiNameText Get_Accounts = ''Get Accounts''"
| "apiNameText Net_Version = ''Net Version''"
| "apiNameText Transaction_By_Hash = ''Transaction By Hash''"
| "apiNameText Transaction_Receipt = ''Transaction Receipt''"
| "apiNameText Request_Permissions = ''Request_Permissions''"
| "apiNameText Get_Permissions = ''Get_Permissions''"

datatype exn = Error string

datatype ('r, 'c) served = Response 'r | Fallback 'c

type_synonym 'b validate = "'b JsonRPCResponse \<Rightarrow> schemaFormat \<Rightarrow> bool"

type_synonym jsObject = "(string \<times> string) list"

definition lineFeed :: char where
  "lineFeed = CHR 0x0A"

fun splitOn :: "char \<Rightarrow> string \<Rightarrow> string list" where
  \<comment> \<open>\<open>s.split(sep)\<close> for a separator of one character\<close>
  "splitOn sep [] = [[]]"
| "splitOn sep (c # cs) =
     (if c = sep then [] # splitOn sep cs
      else (case splitOn sep cs of
              [] \<Rightarrow> [[c]]
            | segment # segments \<Rightarrow> (c # segment) # segments))"

definition isValidResult :: "'b validate \<Rightarrow> 'b JsonRPCResponse \<Rightarrow> schemaFormat \<Rightarrow> bool" where
  \<comment> \<open>\<open>v.validate(response, schemaFormat).valid\<close>; the validator is a parameter.\<close>
  "isValidResult validate response schemaFormat = validate response schemaFormat"

definition formatErrors :: "'b JsonRPCResponse \<Rightarrow> string \<Rightarrow> string" where
  "formatErrors response apiType =
     (case error response of
        Some e \<Rightarrow>
          let lines = splitOn lineFeed (message e)
          in if length lines > 2 then last (splitOn CHR '':'' (lines ! 0))
             else message e @ '' '' @ (case data e of Some d \<Rightarrow> d | None \<Rightarrow> [])
      | None \<Rightarrow> ''Invalid '' @ apiType @ '' Error'')"

definition isValidEthServiceResponse ::
  "'b validate \<Rightarrow> 'b JsonRPCResponse \<Rightarrow> schemaFormat \<Rightarrow> API_NAME
     \<Rightarrow> ('b JsonRPCResponse \<Rightarrow> 'c) option \<Rightarrow> exn + ('b JsonRPCResponse, 'c) served" where
  "isValidEthServiceResponse validate response schemaType apiName cb =
     (if \<not> isValidResult validate response schemaType
      then (case cb of
              Some f \<Rightarrow> Inr (Fallback (f response))
            | None \<Rightarrow> Inl (Error (formatErrors response (apiNameText apiName))))
      else Inr (Response response))"

definition isValidGetBalance ::
  "'b validate \<Rightarrow> 'b JsonRPCResponse \<Rightarrow> exn + ('b JsonRPCResponse, 'c) served" where
  "isValidGetBalance validate response =
     isValidEthServiceResponse validate response RpcNode Get_Balance None"

definition isValidEstimateGas ::
  "'b validate \<Rightarrow> 'b JsonRPCResponse \<Rightarrow> exn + ('b JsonRPCResponse, 'c) served" where
  "isValidEstimateGas validate response =
     isValidEthServiceResponse validate response RpcNode Estimate_Gas None"

definition isValidCallRequest ::
  "'b validate \<Rightarrow> 'b JsonRPCResponse \<Rightarrow> exn + ('b JsonRPCResponse, 'c) served" where
  "isValidCallRequest validate response =
     isValidEthServiceResponse validate response RpcNode Call_Request None"

definition isValidTokenBalance ::
  "'b validate \<Rightarrow> 'b JsonRPCResponse \<Rightarrow> exn + ('b JsonRPCResponse, jsObject) served" where
  "isValidTokenBalance validate response =
     isValidEthServiceResponse validate response RpcNode Token_Balance
       (Some (\<lambda>res. [(''result'', ''Failed'')]))"

definition isValidTransactionCount ::
  "'b validate \<Rightarrow> 'b JsonRPCResponse \<Rightarrow> exn + ('b JsonRPCResponse, 'c) served" where
  "isValidTransactionCount validate response =
     isValidEthServiceResponse validate response RpcNode Transaction_Count None"

definition isValidTransactionByHash ::
  "'b validate \<Rightarrow> 'b JsonRPCResponse \<Rightarrow> exn + ('b JsonRPCResponse, 'c) served" where
  "isValidTransactionByHash validate response =
     isValidEthServiceResponse validate response RpcNode Transaction_By_Hash None"

definition isValidTransactionReceipt ::
  "'b validate \<Rightarrow> 'b JsonRPCResponse \<Rightarrow> exn + ('b JsonRPCResponse, 'c) served" where
  "isValidTransactionReceipt validate response =
     isValidEthServiceResponse validate response RpcNode Transaction_Receipt None"

definition isValidCurrentBlock ::
  "'b validate \<Rightarrow> 'b JsonRPCResponse \<Rightarrow> exn + ('b JsonRPCResponse, 'c) served" where
  "isValidCurrentBlock validate response =
     isValidEthServiceResponse validate response RpcNode Current_Block None"

definition isValidRawTxApi ::
  "'b validate \<Rightarrow> 'b JsonRPCResponse \<Rightarrow> exn + ('b JsonRPCResponse, 'c) served" where
  "isValidRawTxApi validate response =
     isValidEthServiceResponse validate response RpcNode Raw_Tx None"

definition isValidSendTransaction ::
  "'b validate \<Rightarrow> 'b JsonRPCResponse \<Rightarrow> exn + ('b JsonRPCResponse, 'c) served" where
  "isValidSendTransaction validate response =
     isValidEthServiceResponse validate response RpcNode Send_Transaction None"

definition isValidSignMessage ::
  "'b validate \<Rightarrow> 'b JsonRPCResponse \<Rightarrow> exn + ('b JsonRPCResponse, 'c) served" where
  "isValidSignMessage validate response =
     isValidEthServiceResponse validate response RpcNode Sign_Message None"

definition isValidGetAccounts ::
  "'b validate \<Rightarrow> 'b JsonRPCResponse \<Rightarrow> exn + ('b JsonRPCResponse, 'c) served" where
  "isValidGetAccounts validate response =
     isValidEthServiceResponse validate response RpcNode Get_Accounts None"

definition isValidGetNetVersion ::
  "'b validate \<Rightarrow> 'b JsonRPCResponse \<Rightarrow> exn + ('b JsonRPCResponse, 'c) served" where
  "isValidGetNetVersion validate response =
     isValidEthServiceResponse validate response RpcNode Net_Version None"

definition isValidRequestPermissions ::
  "'b validate \<Rightarrow> 'b JsonRPCResponse \<Rightarrow> exn + ('b JsonRPCResponse, 'c) served" where
  "isValidRequestPermissions validate response =
     isValidEthServiceResponse validate response RpcNode Request_Permissions None"

definition isValidGetPermissions ::
  "'b validate \<Rightarrow> 'b JsonRPCResponse \<Rightarrow> exn + ('b JsonRPCResponse, 'c) served" where
  "isValidGetPermissions validate response =
     isValidEthServiceResponse validate response RpcNode Get_Permissions None"

text \<open>The validators that pass no fallback to \<open>isValidEthServiceResponse\<close>: all but
  \<open>isValidTokenBalance\<close>.\<close>

definition validatorsWithoutFallback ::
  "('b validate \<Rightarrow> 'b JsonRPCResponse \<Rightarrow> exn + ('b JsonRPCResponse, 'c) served) list" where
  "validatorsWithoutFallback =
     [isValidGetBalance, isValidEstimateGas, isValidCallRequest, isValidTransactionCount,
      isValidTransactionByHash, isValidTransactionReceipt, isValidCurrentBlock,
      isValidRawTxApi, isValidSendTransaction, isValidSignMessage, isValidGetAccounts,
      isValidGetNetVersion, isValidRequestPermissions, isValidGetPermissions]"

text \<open>
  Two notions used to state what an error message contains: the first line of a text, and
  the part of a line after its last colon (the whole line when it has no colon).
\<close>

definition firstLine :: "string \<Rightarrow> string" where
  "firstLine text = hd (splitOn lineFeed text)"

definition afterLastColon :: "string \<Rightarrow> string" where
  "afterLastColon line = last (splitOn CHR '':'' line)"

text \<open>A response as a wallet extension sends it when the user rejects a signature: an error
  whose message is a stack trace of three lines.\<close>

definition stackTraceResponse :: "unit JsonRPCResponse" where
  "stackTraceResponse =
     \<lparr>members = (),
      error = Some \<lparr>message = ''Error: User rejected'' @ [lineFeed] @ ''at sign''
                                @ [lineFeed] @ ''at send'',
                    data = None\<rparr>\<rparr>"

definition rejectEverything :: "unit validate" where
  \<comment> \<open>a schema validator under which no response is valid\<close>
  "rejectEverything response schemaFormat = False"


subsection \<open>A decimal instance of the parameters\<close>

text \<open>
  To run \<open>validateTxFee\<close> on concrete inputs the parameters need values. The instance below
  stands in for helpers and built-ins whose text is not under \<open>src/\<close>; it is written for the
  examples of this theory, and no general statement depends on it.

  \<^item> A number is a pair \<open>(m, k)\<close> standing for the decimal fraction \<open>m / 10 ^ k\<close>, kept without
    trailing zeros in the fraction. It is printed the way JavaScript prints the number of
    that value: plainly when it is at least \<open>0.000001\<close> and below \<open>10 ^ 21\<close>, and in exponent
    notation otherwise, so that \<open>(1, 7)\<close> prints as \<open>1e-7\<close>. Products are exact, where
    JavaScript rounds to a double; the examples use products that a double holds exactly.
  \<^item> Unit conversion moves the decimal point as \<open>shiftDecimalPoint\<close> does, on any string.
  \<^item> \<open>bigNumberify\<close> reads a non-empty string of decimal digits and raises on any other
    string (signs and hexadecimal texts, which the examples do not meet, are left out).
  \<^item> A gas price is in units of \<open>10 ^ 9\<close> base units, the maximal fee is price times limit,
    and assets have 18 decimals.
\<close>

fun natToString :: "nat \<Rightarrow> string" where
  "natToString n =
     (if n < 10 then [''0123456789'' ! n]
      else natToString (n div 10) @ [''0123456789'' ! (n mod 10)])"

definition padStart :: "string \<Rightarrow> nat \<Rightarrow> string" where
  "padStart s n = replicate (n - length s) CHR ''0'' @ s"

definition stripRightZeros :: "string \<Rightarrow> string" where
  "stripRightZeros s = rev (dropWhile (\<lambda>c. c = CHR ''0'') (rev s))"

definition decimalConvertedToBaseUnit :: "string \<Rightarrow> nat \<Rightarrow> string" where
  "decimalConvertedToBaseUnit v decimal = (if decimal = 0 then v else shiftDecimalPoint v decimal)"

definition decimalBaseToConvertedUnit :: "string \<Rightarrow> nat \<Rightarrow> string" where
  "decimalBaseToConvertedUnit v decimal =
     (if decimal = 0 then v
      else let padded = padStart v (decimal + 1);
               integerPart = take (length padded - decimal) padded;
               fractionPart = stripRightZeros (drop (length padded - decimal) padded)
           in if fractionPart = [] then integerPart else integerPart @ ''.'' @ fractionPart)"

definition decimalBigNumberify :: "string \<Rightarrow> int option" where
  "decimalBigNumberify s =
     (if s \<noteq> [] \<and> list_all isDecimalDigit s then Some (int (parseDecimal s)) else None)"

definition decimalGasStringsToMaxGasBN :: "string \<Rightarrow> string \<Rightarrow> int option" where
  "decimalGasStringsToMaxGasBN gasPriceGwei gasLimit =
     do {
       price \<leftarrow> decimalBigNumberify (decimalConvertedToBaseUnit gasPriceGwei 9);
       limit \<leftarrow> decimalBigNumberify gasLimit;
       Some (price * limit)
     }"

fun normalise :: "nat \<Rightarrow> nat \<Rightarrow> nat \<times> nat" where
  "normalise m 0 = (m, 0)"
| "normalise m (Suc k) = (if m mod 10 = 0 then normalise (m div 10) k else (m, Suc k))"

definition decimalToString :: "nat \<times> nat \<Rightarrow> string" where
  "decimalToString x =
     (case x of (m, k) \<Rightarrow>
        if m = 0 then ''0''
        else
          let digits = stripRightZeros (natToString m);
              n = int (length (natToString m)) - int k
          in if int (length digits) \<le> n \<and> n \<le> 21
             then digits @ replicate (nat (n - int (length digits))) CHR ''0''
             else if 0 < n \<and> n \<le> 21
             then take (nat n) digits @ ''.'' @ drop (nat n) digits
             else if - 6 < n \<and> n \<le> 0
             then ''0.'' @ replicate (nat (- n)) CHR ''0'' @ digits
             else
               let exponent = (if n - 1 < 0 then ''-'' @ natToString (nat (1 - n))
                               else ''+'' @ natToString (nat (n - 1)))
               in if length digits = 1 then digits @ ''e'' @ exponent
                  else take 1 digits @ ''.'' @ drop 1 digits @ ''e'' @ exponent)"

definition decimalOfString :: "string \<Rightarrow> nat \<times> nat" where
  "decimalOfString s =
     normalise (parseDecimal (integerPartOf s @ fractionPartOf s)) (length (fractionPartOf s))"

definition decimalTimes :: "nat \<times> nat \<Rightarrow> nat \<times> nat \<Rightarrow> nat \<times> nat" where
  "decimalTimes x y = (case (x, y) of ((a, j), (b, k)) \<Rightarrow> normalise (a * b) (j + k))"

definition decimalToFixed :: "nat \<times> nat \<Rightarrow> nat \<Rightarrow> string" where
  "decimalToFixed x d =
     (case x of (m, k) \<Rightarrow>
        let scaled = (2 * m * 10 ^ d + 10 ^ k) div (2 * 10 ^ k)
        in if d = 0 then natToString scaled
           else natToString (scaled div 10 ^ d) @ ''.'' @ padStart (natToString (scaled mod 10 ^ d)) d)"

definition decimalLib :: "(nat \<times> nat) lib" where
  "decimalLib =
     \<lparr>DEFAULT_ASSET_DECIMAL = 18,
      convertedToBaseUnit = decimalConvertedToBaseUnit,
      baseToConvertedUnit = decimalBaseToConvertedUnit,
      gasStringsToMaxGasBN = decimalGasStringsToMaxGasBN,
      bnToString = (\<lambda>i. natToString (nat i)),
      bigNumberify = decimalBigNumberify,
      bigNumberToString = (\<lambda>i. natToString (nat i)),
      numToString = decimalToString,
      numTruthy = (\<lambda>x. fst x \<noteq> 0),
      numGreaterThanZero = (\<lambda>x. 0 < fst x),
      numTimes = decimalTimes,
      numLiteral = decimalOfString,
      parseFloat = decimalOfString,
      toFixed = decimalToFixed\<rparr>"

section \<open>Address validation: proofs\<close>

subsection \<open>The two address patterns as languages\<close>

lemma isValidMixedCaseETHAddress_language:
  "isValidMixedCaseETHAddress address \<longleftrightarrow>
     (\<exists>digits. (address = ''0x'' @ digits \<or> address = ''0X'' @ digits) \<and>
        length digits = 40 \<and> list_all isMixedHex digits)"
  by (auto simp: isValidMixedCaseETHAddress_def split: list.splits)

lemma isValidUpperOrLowerCaseETHAddress_language:
  "isValidUpperOrLowerCaseETHAddress address \<longleftrightarrow>
     (\<exists>digits. (address = ''0x'' @ digits \<or> address = ''0X'' @ digits) \<and>
        length digits = 40 \<and> (list_all isLowerHex digits \<or> list_all isUpperHex digits))"
  by (auto simp: isValidUpperOrLowerCaseETHAddress_def split: list.splits)

lemma isLowerHex_isMixedHex: "isLowerHex c \<Longrightarrow> isMixedHex c"
  by (auto simp: isLowerHex_def isMixedHex_def)

lemma isUpperHex_isMixedHex: "isUpperHex c \<Longrightarrow> isMixedHex c"
  by (auto simp: isUpperHex_def isMixedHex_def)

lemma single_case_is_mixed_case:
  "isValidUpperOrLowerCaseETHAddress address \<Longrightarrow> isValidMixedCaseETHAddress address"
  unfolding isValidMixedCaseETHAddress_language isValidUpperOrLowerCaseETHAddress_language
  by (auto simp: list_all_iff intro: isLowerHex_isMixedHex isUpperHex_isMixedHex)

lemma mixed_case_has_prefix:
  "isValidMixedCaseETHAddress address \<Longrightarrow> List.member [''0x'', ''0X''] (take 2 address)"
  unfolding isValidMixedCaseETHAddress_language by auto

text \<open>The chain of tests in \<open>isValidETHLikeAddress\<close> comes down to one condition.\<close>

lemma isValidETHLikeAddress_iff:
  "isValidETHLikeAddress address isChecksumValid \<longleftrightarrow>
     isValidMixedCaseETHAddress address
     \<and> (isValidUpperOrLowerCaseETHAddress address \<or> isChecksumValid)"
  using single_case_is_mixed_case [of address] mixed_case_has_prefix [of address]
  by (auto simp: isValidETHLikeAddress_def Let_def)

subsection \<open>Claims about address validation\<close>

text \<open>
  C1: for an address made of \<open>0x\<close> or \<open>0X\<close> and 40 hex digits that are neither all lower case
  nor all upper case, \<open>isValidETHAddress\<close> holds exactly when the address equals its
  checksummed form, and \<open>isValidETHLikeAddress\<close> returns the checksum flag it is given.
\<close>

theorem mixed_case_valid_iff_checksum:
  assumes "address = ''0x'' @ digits \<or> address = ''0X'' @ digits"
    and "length digits = 40"
    and "list_all isMixedHex digits"
    and "\<not> list_all isLowerHex digits"
    and "\<not> list_all isUpperHex digits"
  shows "isValidETHAddress toChecksumAddress address = (address = toChecksumAddress address)
       \<and> isValidETHLikeAddress address isChecksumValid = isChecksumValid"
proof -
  have m: "isValidMixedCaseETHAddress address"
    unfolding isValidMixedCaseETHAddress_language using assms by blast
  have u: "\<not> isValidUpperOrLowerCaseETHAddress address"
    unfolding isValidUpperOrLowerCaseETHAddress_language using assms by auto
  show ?thesis
    by (simp add: isValidETHAddress_def isChecksumAddress_def isValidETHLikeAddress_iff m u)
qed

theorem mixed_case_valid_iff_checksum_witness:
  "(''0x5aAeb6053F3E94C9b9A09f33669435E7Ef1BeAed''
       = ''0x'' @ ''5aAeb6053F3E94C9b9A09f33669435E7Ef1BeAed''
      \<or> ''0x5aAeb6053F3E94C9b9A09f33669435E7Ef1BeAed''
       = ''0X'' @ ''5aAeb6053F3E94C9b9A09f33669435E7Ef1BeAed'')
   \<and> length ''5aAeb6053F3E94C9b9A09f33669435E7Ef1BeAed'' = 40
   \<and> list_all isMixedHex ''5aAeb6053F3E94C9b9A09f33669435E7Ef1BeAed''
   \<and> \<not> list_all isLowerHex ''5aAeb6053F3E94C9b9A09f33669435E7Ef1BeAed''
   \<and> \<not> list_all isUpperHex ''5aAeb6053F3E94C9b9A09f33669435E7Ef1BeAed''
   \<and> isValidETHAddress (\<lambda>a. ''0x5aAeb6053F3E94C9b9A09f33669435E7Ef1BeAed'')
         ''0x5aAeb6053F3E94C9b9A09f33669435E7Ef1BeAed''
   \<and> \<not> isValidETHAddress (\<lambda>a. ''0x5AAeb6053F3E94C9b9A09f33669435E7Ef1BeAed'')
         ''0x5aAeb6053F3E94C9b9A09f33669435E7Ef1BeAed''"
proof -
  have h1: "''0x5aAeb6053F3E94C9b9A09f33669435E7Ef1BeAed''
       = ''0x'' @ ''5aAeb6053F3E94C9b9A09f33669435E7Ef1BeAed''
      \<or> ''0x5aAeb6053F3E94C9b9A09f33669435E7Ef1BeAed''
       = ''0X'' @ ''5aAeb6053F3E94C9b9A09f33669435E7Ef1BeAed''"
    by simp
  have h2: "length ''5aAeb6053F3E94C9b9A09f33669435E7Ef1BeAed'' = 40" by simp
  have h3: "list_all isMixedHex ''5aAeb6053F3E94C9b9A09f33669435E7Ef1BeAed''"
    by (simp add: isMixedHex_def)
  have h4: "\<not> list_all isLowerHex ''5aAeb6053F3E94C9b9A09f33669435E7Ef1BeAed''"
    by (simp add: isLowerHex_def)
  have h5: "\<not> list_all isUpperHex ''5aAeb6053F3E94C9b9A09f33669435E7Ef1BeAed''"
    by (simp add: isUpperHex_def)
  have c1: "isValidETHAddress (\<lambda>a. ''0x5aAeb6053F3E94C9b9A09f33669435E7Ef1BeAed'')
         ''0x5aAeb6053F3E94C9b9A09f33669435E7Ef1BeAed''"
    using mixed_case_valid_iff_checksum [OF h1 h2 h3 h4 h5,
        of "\<lambda>a. ''0x5aAeb6053F3E94C9b9A09f33669435E7Ef1BeAed''"]
    by simp
  have c2: "\<not> isValidETHAddress (\<lambda>a. ''0x5AAeb6053F3E94C9b9A09f33669435E7Ef1BeAed'')
         ''0x5aAeb6053F3E94C9b9A09f33669435E7Ef1BeAed''"
    using mixed_case_valid_iff_checksum [OF h1 h2 h3 h4 h5,
        of "\<lambda>a. ''0x5AAeb6053F3E94C9b9A09f33669435E7Ef1BeAed''"]
    by simp
  from h1 h2 h3 h4 h5 c1 c2 show ?thesis by (intro conjI)
qed

text \<open>
  C5: an address whose first two characters are neither \<open>0x\<close> nor \<open>0X\<close> is rejected by
  \<open>isValidETHLikeAddress\<close> whatever the checksum flag, by \<open>isValidETHAddress\<close>, and by
  \<open>isValidAddress\<close> for every chain id.
\<close>

theorem missing_prefix_is_invalid:
  assumes "take 2 address \<noteq> ''0x''" and "take 2 address \<noteq> ''0X''"
  shows "\<not> isValidETHLikeAddress address isChecksumValid
       \<and> \<not> isValidETHAddress toChecksumAddress address
       \<and> \<not> isValidAddress toChecksumAddress isValidChecksumRSKAddress address chainId"
  using assms
  by (simp add: isValidAddress_def getIsValidAddressFunction_def isValidRSKAddress_def
      isValidETHAddress_def isValidETHLikeAddress_def)

theorem missing_prefix_is_invalid_witness:
  "take 2 ''5aAeb6053F3E94C9b9A09f33669435E7Ef1BeAed'' \<noteq> ''0x''
   \<and> take 2 ''5aAeb6053F3E94C9b9A09f33669435E7Ef1BeAed'' \<noteq> ''0X''
   \<and> \<not> isValidETHLikeAddress ''5aAeb6053F3E94C9b9A09f33669435E7Ef1BeAed'' True
   \<and> \<not> isValidETHAddress (\<lambda>a. a) ''5aAeb6053F3E94C9b9A09f33669435E7Ef1BeAed''
   \<and> \<not> isValidAddress (\<lambda>a. a) (\<lambda>a c. True) ''5aAeb6053F3E94C9b9A09f33669435E7Ef1BeAed'' 30"
proof -
  have h1: "take 2 ''5aAeb6053F3E94C9b9A09f33669435E7Ef1BeAed'' \<noteq> ''0x''" by simp
  have h2: "take 2 ''5aAeb6053F3E94C9b9A09f33669435E7Ef1BeAed'' \<noteq> ''0X''" by simp
  note r = missing_prefix_is_invalid [OF h1 h2, of True "\<lambda>a. a" "\<lambda>a c. True" 30]
  from h1 h2 r [THEN conjunct1] r [THEN conjunct2, THEN conjunct1]
    r [THEN conjunct2, THEN conjunct2]
  show ?thesis by (intro conjI)
qed

text \<open>
  C6: an address made of \<open>0x\<close> or \<open>0X\<close> and 40 hex digits that are all lower case or all
  upper case is accepted by \<open>isValidETHAddress\<close>, whatever \<open>toChecksumAddress\<close> returns for
  it.
\<close>

theorem single_case_is_valid:
  assumes "address = ''0x'' @ digits \<or> address = ''0X'' @ digits"
    and "length digits = 40"
    and "list_all isLowerHex digits \<or> list_all isUpperHex digits"
  shows "isValidETHAddress toChecksumAddress address"
proof -
  have "isValidUpperOrLowerCaseETHAddress address"
    unfolding isValidUpperOrLowerCaseETHAddress_language using assms by blast
  then show ?thesis
    by (simp add: isValidETHAddress_def isValidETHLikeAddress_iff single_case_is_mixed_case)
qed

theorem single_case_is_valid_witness:
  "(''0X5AAEB6053F3E94C9B9A09F33669435E7EF1BEAED''
       = ''0x'' @ ''5AAEB6053F3E94C9B9A09F33669435E7EF1BEAED''
      \<or> ''0X5AAEB6053F3E94C9B9A09F33669435E7EF1BEAED''
       = ''0X'' @ ''5AAEB6053F3E94C9B9A09F33669435E7EF1BEAED'')
   \<and> length ''5AAEB6053F3E94C9B9A09F33669435E7EF1BEAED'' = 40
   \<and> (list_all isLowerHex ''5AAEB6053F3E94C9B9A09F33669435E7EF1BEAED''
      \<or> list_all isUpperHex ''5AAEB6053F3E94C9B9A09F33669435E7EF1BEAED'')
   \<and> ''0X5AAEB6053F3E94C9B9A09F33669435E7EF1BEAED''
       \<noteq> ''0x5aAeb6053F3E94C9b9A09f33669435E7Ef1BeAed''
   \<and> isValidETHAddress (\<lambda>a. ''0x5aAeb6053F3E94C9b9A09f33669435E7Ef1BeAed'')
       ''0X5AAEB6053F3E94C9B9A09F33669435E7EF1BEAED''"
proof -
  have h1: "''0X5AAEB6053F3E94C9B9A09F33669435E7EF1BEAED''
       = ''0x'' @ ''5AAEB6053F3E94C9B9A09F33669435E7EF1BEAED''
      \<or> ''0X5AAEB6053F3E94C9B9A09F33669435E7EF1BEAED''
       = ''0X'' @ ''5AAEB6053F3E94C9B9A09F33669435E7EF1BEAED''"
    by simp
  have h2: "length ''5AAEB6053F3E94C9B9A09F33669435E7EF1BEAED'' = 40" by simp
  have h3: "list_all isLowerHex ''5AAEB6053F3E94C9B9A09F33669435E7EF1BEAED''
      \<or> list_all isUpperHex ''5AAEB6053F3E94C9B9A09F33669435E7EF1BEAED''"
    by (simp add: isUpperHex_def)
  have d: "''0X5AAEB6053F3E94C9B9A09F33669435E7EF1BEAED''
       \<noteq> ''0x5aAeb6053F3E94C9b9A09f33669435E7Ef1BeAed''"
    by simp
  note r = single_case_is_valid [OF h1 h2 h3,
      of "\<lambda>a. ''0x5aAeb6053F3E94C9b9A09f33669435E7Ef1BeAed''"]
  from h1 h2 h3 d r show ?thesis by (intro conjI)
qed

text \<open>
  C8: \<open>isValidAddress\<close> validates with the RSK checksum when the chain id is 30 or 31, and
  equals \<open>isValidETHAddress\<close> for every other chain id.
\<close>

theorem chain_delegation:
  "isValidAddress toChecksumAddress isValidChecksumRSKAddress address chainId =
     (if chainId = 30 \<or> chainId = 31
      then isValidETHLikeAddress address (isValidChecksumRSKAddress address chainId)
      else isValidETHAddress toChecksumAddress address)"
  by (simp add: isValidAddress_def getIsValidAddressFunction_def isValidRSKAddress_def)

theorem chain_delegation_witness:
  "isValidAddress (\<lambda>a. a) (\<lambda>a c. False) ''0x5aAeb6053F3E94C9b9A09f33669435E7Ef1BeAed'' 31
     = isValidETHLikeAddress ''0x5aAeb6053F3E94C9b9A09f33669435E7Ef1BeAed'' False
   \<and> isValidAddress (\<lambda>a. a) (\<lambda>a c. False) ''0x5aAeb6053F3E94C9b9A09f33669435E7Ef1BeAed'' 1
     = isValidETHAddress (\<lambda>a. a) ''0x5aAeb6053F3E94C9b9A09f33669435E7Ef1BeAed''"
proof -
  have "isValidAddress (\<lambda>a. a) (\<lambda>a c. False) ''0x5aAeb6053F3E94C9b9A09f33669435E7Ef1BeAed'' 31
     = isValidETHLikeAddress ''0x5aAeb6053F3E94C9b9A09f33669435E7Ef1BeAed'' False"
    unfolding chain_delegation [of "\<lambda>a. a" "\<lambda>a c. False" _ 31] by simp
  moreover
  have "isValidAddress (\<lambda>a. a) (\<lambda>a c. False) ''0x5aAeb6053F3E94C9b9A09f33669435E7Ef1BeAed'' 1
     = isValidETHAddress (\<lambda>a. a) ''0x5aAeb6053F3E94C9b9A09f33669435E7Ef1BeAed''"
    unfolding chain_delegation [of "\<lambda>a. a" "\<lambda>a c. False" _ 1] by simp
  ultimately show ?thesis by (intro conjI)
qed


section \<open>Transaction fee classification: proofs\<close>

subsection \<open>The input pattern\<close>

text \<open>
  The pattern \<open>^[0-9]+(\.[0-9])?[0-9]*$\<close> read as a language: a non-empty run of digits,
  optionally followed by a point and another non-empty run of digits.
\<close>

lemma takeWhile_digits_point:
  "list_all isDecimalDigit i \<Longrightarrow> takeWhile isDecimalDigit (i @ CHR ''.'' # f) = i"
  by (induction i) (simp_all add: isDecimalDigit_def)

lemma dropWhile_digits_point:
  "list_all isDecimalDigit i \<Longrightarrow> dropWhile isDecimalDigit (i @ CHR ''.'' # f) = CHR ''.'' # f"
  by (induction i) (simp_all add: isDecimalDigit_def)

lemma takeWhile_all_digits: "list_all isDecimalDigit i \<Longrightarrow> takeWhile isDecimalDigit i = i"
  by (induction i) simp_all

lemma dropWhile_all_digits: "list_all isDecimalDigit i \<Longrightarrow> dropWhile isDecimalDigit i = []"
  by (induction i) simp_all

lemma list_all_takeWhile: "list_all P (takeWhile P xs)"
  by (induction xs) simp_all

lemma matchesValidInputRegex_language:
  "matchesValidInputRegex s \<longleftrightarrow>
     (\<exists>i f. i \<noteq> [] \<and> list_all isDecimalDigit i \<and> list_all isDecimalDigit f \<and>
        (s = i \<or> (f \<noteq> [] \<and> s = i @ ''.'' @ f)))"
proof
  assume m: "matchesValidInputRegex s"
  let ?i = "takeWhile isDecimalDigit s"
  have i: "?i \<noteq> []" "list_all isDecimalDigit ?i"
    using m by (simp_all add: matchesValidInputRegex_def list_all_takeWhile)
  show "\<exists>i f. i \<noteq> [] \<and> list_all isDecimalDigit i \<and> list_all isDecimalDigit f \<and>
        (s = i \<or> (f \<noteq> [] \<and> s = i @ ''.'' @ f))"
  proof (cases "dropWhile isDecimalDigit s")
    case Nil
    then have "s = ?i"
      by (metis append_Nil2 takeWhile_dropWhile_id)
    with i show ?thesis by (intro exI [of _ ?i] exI [of _ "[]"]) simp
  next
    case (Cons c f)
    with m have f: "c = CHR ''.''" "f \<noteq> []" "list_all isDecimalDigit f"
      by (simp_all add: matchesValidInputRegex_def)
    have "s = ?i @ ''.'' @ f"
      using takeWhile_dropWhile_id [of isDecimalDigit s] Cons f(1) by simp
    with i f show ?thesis by (intro exI [of _ ?i] exI [of _ f]) simp
  qed
next
  assume "\<exists>i f. i \<noteq> [] \<and> list_all isDecimalDigit i \<and> list_all isDecimalDigit f \<and>
        (s = i \<or> (f \<noteq> [] \<and> s = i @ ''.'' @ f))"
  then obtain i f where i: "i \<noteq> []" "list_all isDecimalDigit i"
    and f: "list_all isDecimalDigit f"
    and s: "s = i \<or> (f \<noteq> [] \<and> s = i @ ''.'' @ f)"
    by blast
  from s show "matchesValidInputRegex s"
  proof
    assume "s = i"
    with i show ?thesis
      by (simp add: matchesValidInputRegex_def takeWhile_all_digits dropWhile_all_digits)
  next
    assume "f \<noteq> [] \<and> s = i @ ''.'' @ f"
    with i f show ?thesis
      by (simp add: matchesValidInputRegex_def takeWhile_digits_point dropWhile_digits_point)
  qed
qed


subsection \<open>The order of the tests\<close>

lemma validateTxFee_malformed:
  assumes "\<not> matchesValidInputRegex amount \<or> \<not> matchesValidInputRegex gasLimit
     \<or> \<not> matchesValidInputRegex gasPrice"
  shows "validateTxFee L amount assetRateUSD assetRateFiat isERC20 gasLimit gasPrice ethAssetRate
     = Some \<lparr>resp_type = Invalid, resp_amount = None, resp_fee = None\<rparr>"
  using assms unfolding validateTxFee_def by (simp only: if_True)

text \<open>
  When the conversions of the amount, the gas strings, both rates and the smallest amount
  return, the classification is decided by the tests in the order of the program; a raise
  can then only come from a threshold that is read on the way.
\<close>

lemma validateTxFee_type:
  assumes "matchesValidInputRegex amount" "matchesValidInputRegex gasLimit"
    "matchesValidInputRegex gasPrice"
    and "baseUnits L amount = Some txAmount"
    and "txFeeOf L gasLimit gasPrice = Some txFee"
    and "assetRateOf L assetRateUSD = Some rateUSD"
    and "assetRateOf L assetRateFiat = Some rateFiat"
    and "baseUnits L ''0.000001'' = Some amountFloor"
  shows "map_option resp_type (validateTxFee L amount assetRateUSD assetRateFiat isERC20 gasLimit
            gasPrice ethAssetRate) =
     (if txAmount < amountFloor then Some Tx_None
      else do {
        limitVeryHigh \<leftarrow> baseUnits L ''100'';
        isVeryHigh \<leftarrow>
          (if rateUSD * txFee > limitVeryHigh then Some True
           else reachesEthFraction L ethAssetRate (rateUSD * txFee) (numLiteral L ''0.5''));
        if isVeryHigh then Some Error_Very_High_Tx_Fee
        else do {
          limitHigh \<leftarrow> baseUnits L ''25'';
          isHigh \<leftarrow>
            (if rateUSD * txFee > limitHigh then Some True
             else reachesEthFraction L ethAssetRate (rateUSD * txFee) (numLiteral L ''0.15''));
          if isHigh then Some Error_High_Tx_Fee
          else do {
            limitUseLower \<leftarrow> baseUnits L ''5'';
            isUseLower \<leftarrow>
              (if rateUSD * txFee > limitUseLower then Some True
               else reachesEthFraction L ethAssetRate (rateUSD * txFee) (numLiteral L ''0.025''));
            if isUseLower then Some Error_Use_Lower
            else do {
              isWarning \<leftarrow>
                (if \<not> isERC20
                 then do {
                   feeShifted \<leftarrow> bigNumberify L (convertedToBaseUnit L
                     (bigNumberToString L txFee) 4);
                   Some (txAmount < feeShifted)
                 }
                 else Some False);
              Some (if isWarning then Warning else Tx_None)
            }
          }
        }
      })"
proof -
  from assms(5) obtain maxGas where
    g: "gasStringsToMaxGasBN L gasPrice gasLimit = Some maxGas"
    and f: "bigNumberify L (bnToString L maxGas) = Some txFee"
    by (auto simp: txFeeOf_def bind_eq_Some_conv)
  show ?thesis
  proof (cases ethAssetRate)
    case None
    then show ?thesis
      using assms(1-4,6-8) g f
      by (auto simp: validateTxFee_def Let_def baseUnits_def defaultDecimal_def assetRateOf_def
          reachesEthFraction_def valueOfEthFraction_def
          split: Option.bind_splits if_splits)
  next
    case (Some r)
    then show ?thesis
      using assms(1-4,6-8) g f
      by (auto simp: validateTxFee_def Let_def baseUnits_def defaultDecimal_def assetRateOf_def
          reachesEthFraction_def valueOfEthFraction_def
          split: Option.bind_splits if_splits)
  qed
qed

text \<open>A rate that \<open>bigNumberify\<close> does not read ends the call with a raise.\<close>

lemma validateTxFee_raises_on_rate:
  assumes "matchesValidInputRegex amount" "matchesValidInputRegex gasLimit"
    "matchesValidInputRegex gasPrice"
    and "assetRateOf L assetRateUSD = None"
  shows "validateTxFee L amount assetRateUSD assetRateFiat isERC20 gasLimit gasPrice ethAssetRate
     = None"
  using assms by (simp add: validateTxFee_def Let_def assetRateOf_def)

lemma validateTxFee_raises_on_local_rate:
  assumes "matchesValidInputRegex amount" "matchesValidInputRegex gasLimit"
    "matchesValidInputRegex gasPrice"
    and "assetRateOf L assetRateFiat = None"
  shows "validateTxFee L amount assetRateUSD assetRateFiat isERC20 gasLimit gasPrice ethAssetRate
     = None"
  using assms by (simp add: validateTxFee_def Let_def assetRateOf_def cong del: if_weak_cong)

lemma erc20_result_is_not_warning:
  "validateTxFee L amount assetRateUSD assetRateFiat True gasLimit gasPrice ethAssetRate = Some r
     \<Longrightarrow> resp_type r \<noteq> Warning"
  by (auto simp: validateTxFee_def Let_def bind_eq_Some_conv split: if_splits option.splits)

lemma reachesEthFraction_of_exceeds:
  assumes "exceedsEthFraction L ethAssetRate feeFiatValue ethFraction"
  shows "reachesEthFraction L ethAssetRate feeFiatValue ethFraction = Some True"
  using assms
  by (auto simp: exceedsEthFraction_def reachesEthFraction_def split: option.splits)

subsection \<open>Decimal texts in base units\<close>

text \<open>
  What follows from the two conversions behaving as described, on a text of the input
  pattern whose fraction has no more digits than there are decimals: the text is converted
  to a string of digits, which \<open>bigNumberify\<close> reads; and the two amounts \<open>0.0000001\<close> and
  \<open>0.000001\<close> become \<open>10 ^ (d - 7)\<close> and \<open>10 ^ (d - 6)\<close> base units when there are \<open>d\<close>
  decimals, at least seven.
\<close>

lemma digitValue_zero: "digitValue CHR ''0'' = 0"
  by (simp add: digitValue_def)

lemma foldl_decimal_zeros:
  "foldl (\<lambda>n c. 10 * n + digitValue c) a (replicate k CHR ''0'') = a * 10 ^ k"
  by (induction k arbitrary: a) (simp_all add: digitValue_zero)

lemma parseDecimal_append_zeros:
  "parseDecimal (s @ replicate k CHR ''0'') = parseDecimal s * 10 ^ k"
  by (simp add: parseDecimal_def foldl_decimal_zeros)

lemma shift_tiny_amount:
  assumes "7 \<le> d"
  shows "shiftDecimalPoint ''0.0000001'' d = ''00000001'' @ replicate (d - 7) CHR ''0''"
  by (simp add: shiftDecimalPoint_def integerPartOf_def fractionPartOf_def padEnd_def)

lemma shift_amount_floor:
  assumes "7 \<le> d"
  shows "shiftDecimalPoint ''0.000001'' d = ''0000001'' @ replicate (d - 6) CHR ''0''"
  by (simp add: shiftDecimalPoint_def integerPartOf_def fractionPartOf_def padEnd_def)

lemma zeros_are_digits: "list_all isDecimalDigit (replicate k CHR ''0'')"
  by (induction k) (simp_all add: isDecimalDigit_def)

lemma valid_tiny_amount: "matchesValidInputRegex ''0.0000001''"
  by (simp add: matchesValidInputRegex_def isDecimalDigit_def)

lemma valid_amount_floor: "matchesValidInputRegex ''0.000001''"
  by (simp add: matchesValidInputRegex_def isDecimalDigit_def)

lemma baseUnits_tiny_amount:
  assumes conv: "\<And>v d. 0 < d \<Longrightarrow> matchesValidInputRegex v \<Longrightarrow>
      length (fractionPartOf v) \<le> d \<Longrightarrow> convertedToBaseUnit L v d = shiftDecimalPoint v d"
    and big: "\<And>s. s \<noteq> [] \<Longrightarrow> list_all isDecimalDigit s \<Longrightarrow>
      bigNumberify L s = Some (int (parseDecimal s))"
    and d: "3 \<le> DEFAULT_ASSET_DECIMAL L"
  shows "baseUnits L ''0.0000001'' = Some (10 ^ (defaultDecimal L - 7))"
proof -
  have d7: "7 \<le> defaultDecimal L" and d0: "0 < defaultDecimal L"
    using d by (simp_all add: defaultDecimal_def)
  have "convertedToBaseUnit L ''0.0000001'' (defaultDecimal L)
      = ''00000001'' @ replicate (defaultDecimal L - 7) CHR ''0''"
    using conv [OF d0 valid_tiny_amount] shift_tiny_amount [OF d7] d7
    by (simp add: fractionPartOf_def)
  moreover have "bigNumberify L (''00000001'' @ replicate (defaultDecimal L - 7) CHR ''0'')
      = Some (int (parseDecimal (''00000001'' @ replicate (defaultDecimal L - 7) CHR ''0'')))"
    by (rule big) (simp_all add: zeros_are_digits isDecimalDigit_def)
  moreover have "parseDecimal ''00000001'' = 1"
    by (simp add: parseDecimal_def digitValue_def)
  ultimately show ?thesis
    by (simp only: baseUnits_def parseDecimal_append_zeros) simp
qed

lemma baseUnits_amount_floor:
  assumes conv: "\<And>v d. 0 < d \<Longrightarrow> matchesValidInputRegex v \<Longrightarrow>
      length (fractionPartOf v) \<le> d \<Longrightarrow> convertedToBaseUnit L v d = shiftDecimalPoint v d"
    and big: "\<And>s. s \<noteq> [] \<Longrightarrow> list_all isDecimalDigit s \<Longrightarrow>
      bigNumberify L s = Some (int (parseDecimal s))"
    and d: "3 \<le> DEFAULT_ASSET_DECIMAL L"
  shows "baseUnits L ''0.000001'' = Some (10 ^ (defaultDecimal L - 6))"
proof -
  have d7: "7 \<le> defaultDecimal L" and d0: "0 < defaultDecimal L"
    using d by (simp_all add: defaultDecimal_def)
  have "convertedToBaseUnit L ''0.000001'' (defaultDecimal L)
      = ''0000001'' @ replicate (defaultDecimal L - 6) CHR ''0''"
    using conv [OF d0 valid_amount_floor] shift_amount_floor [OF d7] d7
    by (simp add: fractionPartOf_def)
  moreover have "bigNumberify L (''0000001'' @ replicate (defaultDecimal L - 6) CHR ''0'')
      = Some (int (parseDecimal (''0000001'' @ replicate (defaultDecimal L - 6) CHR ''0'')))"
    by (rule big) (simp_all add: zeros_are_digits isDecimalDigit_def)
  moreover have "parseDecimal ''0000001'' = 1"
    by (simp add: parseDecimal_def digitValue_def)
  ultimately show ?thesis
    by (simp only: baseUnits_def parseDecimal_append_zeros) simp
qed

lemma tiny_amount_below_floor:
  assumes "3 \<le> DEFAULT_ASSET_DECIMAL L"
  shows "(10::int) ^ (defaultDecimal L - 7) < 10 ^ (defaultDecimal L - 6)"
proof -
  have "defaultDecimal L - 6 = Suc (defaultDecimal L - 7)"
    using assms by (simp add: defaultDecimal_def)
  then show ?thesis by simp
qed

lemma digit_is_no_point: "isDecimalDigit c \<Longrightarrow> c \<noteq> CHR ''.''"
  by (auto simp: isDecimalDigit_def)

lemma integerPartOf_digits: "list_all isDecimalDigit i \<Longrightarrow> integerPartOf i = i"
  by (induction i) (simp_all add: integerPartOf_def digit_is_no_point)

lemma fractionPartOf_digits: "list_all isDecimalDigit i \<Longrightarrow> fractionPartOf i = []"
  by (induction i) (simp_all add: fractionPartOf_def digit_is_no_point)

lemma integerPartOf_point:
  "list_all isDecimalDigit i \<Longrightarrow> integerPartOf (i @ CHR ''.'' # f) = i"
  by (induction i) (simp_all add: integerPartOf_def digit_is_no_point)

lemma fractionPartOf_point:
  "list_all isDecimalDigit i \<Longrightarrow> fractionPartOf (i @ CHR ''.'' # f) = f"
  by (induction i) (simp_all add: fractionPartOf_def digit_is_no_point)

lemma shiftDecimalPoint_digits:
  assumes "matchesValidInputRegex v"
  shows "shiftDecimalPoint v d \<noteq> [] \<and> list_all isDecimalDigit (shiftDecimalPoint v d)"
proof -
  from assms obtain i f where i: "i \<noteq> []" "list_all isDecimalDigit i"
    and f: "list_all isDecimalDigit f"
    and v: "v = i \<or> (f \<noteq> [] \<and> v = i @ ''.'' @ f)"
    unfolding matchesValidInputRegex_language by blast
  from v show ?thesis
  proof
    assume "v = i"
    with i show ?thesis
      by (simp add: shiftDecimalPoint_def integerPartOf_digits fractionPartOf_digits padEnd_def
          zeros_are_digits)
  next
    assume "f \<noteq> [] \<and> v = i @ ''.'' @ f"
    with i f show ?thesis
      by (simp add: shiftDecimalPoint_def integerPartOf_point fractionPartOf_point padEnd_def
          zeros_are_digits)
  qed
qed

text \<open>
  So a well-formed amount with no more fraction digits than there are decimals is read, and
  so is a rate that prints as a plain decimal number with at most four fraction digits.
\<close>

lemma well_formed_amount_is_read:
  assumes conv: "\<And>v d. 0 < d \<Longrightarrow> matchesValidInputRegex v \<Longrightarrow>
      length (fractionPartOf v) \<le> d \<Longrightarrow> convertedToBaseUnit L v d = shiftDecimalPoint v d"
    and big: "\<And>s. s \<noteq> [] \<Longrightarrow> list_all isDecimalDigit s \<Longrightarrow>
      bigNumberify L s = Some (int (parseDecimal s))"
    and v: "matchesValidInputRegex amount"
    and short: "length (fractionPartOf amount) \<le> defaultDecimal L"
  shows "baseUnits L amount = Some (int (parseDecimal (shiftDecimalPoint amount (defaultDecimal L))))"
proof -
  have "0 < defaultDecimal L" by (simp add: defaultDecimal_def)
  then have "convertedToBaseUnit L amount (defaultDecimal L)
      = shiftDecimalPoint amount (defaultDecimal L)"
    using v short by (rule conv)
  then show ?thesis
    using shiftDecimalPoint_digits [OF v, of "defaultDecimal L"]
    by (simp add: baseUnits_def big)
qed

lemma plain_rate_is_read:
  assumes conv: "\<And>v d. 0 < d \<Longrightarrow> matchesValidInputRegex v \<Longrightarrow>
      length (fractionPartOf v) \<le> d \<Longrightarrow> convertedToBaseUnit L v d = shiftDecimalPoint v d"
    and big: "\<And>s. s \<noteq> [] \<Longrightarrow> list_all isDecimalDigit s \<Longrightarrow>
      bigNumberify L s = Some (int (parseDecimal s))"
    and v: "matchesValidInputRegex (numToString L rate)"
    and short: "length (fractionPartOf (numToString L rate)) \<le> 4"
  shows "assetRateOf L rate \<noteq> None"
proof -
  have "convertedToBaseUnit L (numToString L rate) 4 = shiftDecimalPoint (numToString L rate) 4"
    using v short by (simp add: conv)
  then show ?thesis
    using shiftDecimalPoint_digits [OF v, of 4]
    by (simp add: assetRateOf_def big)
qed

subsection \<open>Runs of the decimal instance\<close>

lemma replicate_numeral_unfold: "replicate (numeral k) x = x # replicate (pred_numeral k) x"
  by (simp add: numeral_eq_Suc)

text \<open>\<open>natToString\<close> is unfolded on numerals only, where the recursion ends.\<close>

declare natToString.simps [simp del]

lemma natToString_numeral:
  "natToString (numeral k) =
     (if (numeral k :: nat) < 10 then [''0123456789'' ! numeral k]
      else natToString (numeral k div 10) @ [''0123456789'' ! (numeral k mod 10)])"
  by (rule natToString.simps)

lemma natToString_one: "natToString (Suc 0) = ''1''"
  by (simp add: natToString.simps [of "Suc 0"])

lemmas decimal_defs = decimalLib_def defaultDecimal_def decimalConvertedToBaseUnit_def
  shiftDecimalPoint_def integerPartOf_def fractionPartOf_def padEnd_def parseDecimal_def
  digitValue_def decimalGasStringsToMaxGasBN_def decimalBigNumberify_def isDecimalDigit_def
  replicate_numeral_unfold natToString_numeral natToString_one

lemmas print_defs = decimalLib_def decimalToString_def stripRightZeros_def Let_def
  replicate_numeral_unfold natToString_numeral natToString_one

lemma decimalLib_converts:
  "0 < d \<Longrightarrow> convertedToBaseUnit decimalLib v d = shiftDecimalPoint v d"
  by (simp add: decimalLib_def decimalConvertedToBaseUnit_def)

lemma decimalLib_reads_digits:
  "s \<noteq> [] \<Longrightarrow> list_all isDecimalDigit s \<Longrightarrow>
     bigNumberify decimalLib s = Some (int (parseDecimal s))"
  by (simp add: decimalLib_def decimalBigNumberify_def)

lemma decimalLib_decimals: "3 \<le> DEFAULT_ASSET_DECIMAL decimalLib"
  by (simp add: decimalLib_def)

lemma valid_small_amount: "matchesValidInputRegex ''0.00001''"
  by (simp add: matchesValidInputRegex_def isDecimalDigit_def)

lemma valid_one: "matchesValidInputRegex ''1''"
  by (simp add: matchesValidInputRegex_def isDecimalDigit_def)

lemma valid_21000: "matchesValidInputRegex ''21000''"
  by (simp add: matchesValidInputRegex_def isDecimalDigit_def)

lemma valid_5000: "matchesValidInputRegex ''5000''"
  by (simp add: matchesValidInputRegex_def isDecimalDigit_def)

lemma valid_28572: "matchesValidInputRegex ''28572''"
  by (simp add: matchesValidInputRegex_def isDecimalDigit_def)

lemma invalid_abc: "\<not> matchesValidInputRegex ''abc''"
  by (simp add: matchesValidInputRegex_def isDecimalDigit_def)

lemma decimal_tiny_amount: "baseUnits decimalLib ''0.0000001'' = Some 1000000000000000"
  by (simp add: baseUnits_def decimal_defs)

lemma decimal_small_amount: "baseUnits decimalLib ''0.00001'' = Some 100000000000000000"
  by (simp add: baseUnits_def decimal_defs)

lemma decimal_one: "baseUnits decimalLib ''1'' = Some 10000000000000000000000"
  by (simp add: baseUnits_def decimal_defs)

lemma decimal_amount_floor: "baseUnits decimalLib ''0.000001'' = Some 10000000000000000"
  by (simp add: baseUnits_def decimal_defs)

lemma decimal_100: "baseUnits decimalLib ''100'' = Some 1000000000000000000000000"
  by (simp add: baseUnits_def decimal_defs)

lemma decimal_25: "baseUnits decimalLib ''25'' = Some 250000000000000000000000"
  by (simp add: baseUnits_def decimal_defs)

lemma decimal_5: "baseUnits decimalLib ''5'' = Some 50000000000000000000000"
  by (simp add: baseUnits_def decimal_defs)

lemma decimal_50: "baseUnits decimalLib ''50'' = Some 500000000000000000000000"
  by (simp add: baseUnits_def decimal_defs)

lemma decimal_gas_5000: "gasStringsToMaxGasBN decimalLib ''5000'' ''21000'' = Some 105000000000000000"
  by (simp add: decimal_defs)

lemma decimal_fee_5000: "txFeeOf decimalLib ''21000'' ''5000'' = Some 105000000000000000"
  unfolding txFeeOf_def decimal_gas_5000 Option.bind.simps by (simp add: decimal_defs)

lemma decimal_gas_28572: "gasStringsToMaxGasBN decimalLib ''28572'' ''21000'' = Some 600012000000000000"
  by (simp add: decimal_defs)

lemma decimal_fee_28572: "txFeeOf decimalLib ''21000'' ''28572'' = Some 600012000000000000"
  unfolding txFeeOf_def decimal_gas_28572 Option.bind.simps by (simp add: decimal_defs)

lemma decimal_gas_1: "gasStringsToMaxGasBN decimalLib ''1'' ''21000'' = Some 21000000000000"
  by (simp add: decimal_defs)

lemma decimal_fee_1: "txFeeOf decimalLib ''21000'' ''1'' = Some 21000000000000"
  unfolding txFeeOf_def decimal_gas_1 Option.bind.simps by (simp add: decimal_defs)

lemma decimal_prints_2000: "numToString decimalLib (2000, 0) = ''2000''"
  by (simp add: print_defs)

lemma decimal_prints_1800: "numToString decimalLib (1800, 0) = ''1800''"
  by (simp add: print_defs)

lemma decimal_prints_100: "numToString decimalLib (100, 0) = ''100''"
  by (simp add: print_defs)

lemma decimal_prints_2: "numToString decimalLib (2, 0) = ''2''"
  by (simp add: print_defs)

lemma decimal_prints_small: "numToString decimalLib (1, 7) = ''1e-7''"
  by (simp add: print_defs)

lemma decimal_rate_2000: "assetRateOf decimalLib (2000, 0) = Some 20000000"
  unfolding assetRateOf_def decimal_prints_2000 by (simp add: decimal_defs)

lemma decimal_rate_1800: "assetRateOf decimalLib (1800, 0) = Some 18000000"
  unfolding assetRateOf_def decimal_prints_1800 by (simp add: decimal_defs)

lemma decimal_rate_100: "assetRateOf decimalLib (100, 0) = Some 1000000"
  unfolding assetRateOf_def decimal_prints_100 by (simp add: decimal_defs)

lemma decimal_rate_2: "assetRateOf decimalLib (2, 0) = Some 20000"
  unfolding assetRateOf_def decimal_prints_2 by (simp add: decimal_defs)

lemma decimal_rate_small: "assetRateOf decimalLib (1, 7) = None"
  unfolding assetRateOf_def decimal_prints_small by (simp add: decimal_defs)

lemma decimal_fiat_5000:
  "txFeeFiatValueOf decimalLib (2000, 0) ''21000'' ''5000'' = Some 2100000000000000000000000"
  unfolding txFeeFiatValueOf_def decimal_fee_5000 decimal_rate_2000 by simp

lemma decimal_fiat_28572:
  "txFeeFiatValueOf decimalLib (100, 0) ''21000'' ''28572'' = Some 600012000000000000000000"
  unfolding txFeeFiatValueOf_def decimal_fee_28572 decimal_rate_100 by simp

lemma decimal_half_of_100:
  "numToString decimalLib (numTimes decimalLib (100, 0) (numLiteral decimalLib ''0.5'')) = ''50''"
proof -
  have "numLiteral decimalLib ''0.5'' = (5, 1)"
    by (simp add: decimalLib_def decimalOfString_def integerPartOf_def fractionPartOf_def
        parseDecimal_def digitValue_def)
  moreover have "numTimes decimalLib (100, 0) (5, 1) = (50, 0)"
    by (simp add: decimalLib_def decimalTimes_def)
  moreover have "numToString decimalLib (50, 0) = ''50''"
    by (simp add: print_defs)
  ultimately show ?thesis by (simp only:)
qed

lemma decimal_half_eth:
  "valueOfEthFraction decimalLib (100, 0) (numLiteral decimalLib ''0.5'')
     = Some 500000000000000000000000"
  unfolding valueOfEthFraction_def decimal_half_of_100 by (rule decimal_50)

lemma decimal_fee_1_shifted:
  "bigNumberify decimalLib (convertedToBaseUnit decimalLib
     (bigNumberToString decimalLib 21000000000000) 4) = Some 210000000000000000"
  by (simp add: decimal_defs)

lemma no_eth_rate: "reachesEthFraction L None feeFiatValue ethFraction = Some False"
  by (simp add: reachesEthFraction_def)

subsection \<open>Claims about the fee classification\<close>

text \<open>
  C2, as stated, fails in three ways, shown with the decimal instance.
  \<^item> The test for a tiny amount comes first: sending 0.0000001 at a rate of 2000 USD with gas
    limit 21000 and gas price 5000 has a fee worth 210 USD, above the 100 USD threshold,
    and the classification is \<open>None\<close>.
  \<^item> The comparison with 0.5 ETH is made only when an ETH rate is passed: sending 1 at a
    rate of 100 USD with gas limit 21000 and gas price 28572 and no ETH rate has a fee of
    0.600012 units of an asset of 18 decimals, above 0.5, and the classification is
    \<open>Error-High-Tx-Fee\<close>.
  \<^item> A rate that prints in exponent notation is not read by \<open>bigNumberify\<close>: with the local
    rate \<open>1e-7\<close> the first call raises.
\<close>

theorem very_high_fee_counterexample:
  "matchesValidInputRegex ''0.0000001'' \<and> matchesValidInputRegex ''21000''
   \<and> matchesValidInputRegex ''5000''
   \<and> txFeeFiatValueOf decimalLib (2000, 0) ''21000'' ''5000'' = Some 2100000000000000000000000
   \<and> baseUnits decimalLib ''100'' = Some 1000000000000000000000000
   \<and> (2100000000000000000000000 :: int) > 1000000000000000000000000
   \<and> map_option resp_type (validateTxFee decimalLib ''0.0000001'' (2000, 0) (2000, 0) False
         ''21000'' ''5000'' None) = Some Tx_None
   \<and> matchesValidInputRegex ''1'' \<and> matchesValidInputRegex ''28572''
   \<and> DEFAULT_ASSET_DECIMAL decimalLib = 18
   \<and> txFeeOf decimalLib ''21000'' ''28572'' = Some 600012000000000000
   \<and> (600012000000000000 :: int) > 5 * 10 ^ 17
   \<and> map_option resp_type (validateTxFee decimalLib ''1'' (100, 0) (100, 0) False
         ''21000'' ''28572'' None) = Some Error_High_Tx_Fee
   \<and> numToString decimalLib (1, 7) = ''1e-7''
   \<and> validateTxFee decimalLib ''1'' (2000, 0) (1, 7) False ''21000'' ''5000'' None = None"
proof -
  have exceeds: "(2100000000000000000000000 :: int) > 1000000000000000000000000"
    by simp
  have tiny: "map_option resp_type (validateTxFee decimalLib ''0.0000001'' (2000, 0) (2000, 0)
      False ''21000'' ''5000'' None) = Some Tx_None"
    unfolding validateTxFee_type [OF valid_tiny_amount valid_21000 valid_5000
        decimal_tiny_amount decimal_fee_5000 decimal_rate_2000 decimal_rate_2000
        decimal_amount_floor]
    by simp
  have decimals: "DEFAULT_ASSET_DECIMAL decimalLib = 18"
    by (simp add: decimalLib_def)
  have half: "(600012000000000000 :: int) > 5 * 10 ^ 17"
    by simp
  have high: "map_option resp_type (validateTxFee decimalLib ''1'' (100, 0) (100, 0) False
      ''21000'' ''28572'' None) = Some Error_High_Tx_Fee"
    unfolding validateTxFee_type [OF valid_one valid_21000 valid_28572
        decimal_one decimal_fee_28572 decimal_rate_100 decimal_rate_100 decimal_amount_floor]
      decimal_100 decimal_25 no_eth_rate
    by simp
  have raise: "validateTxFee decimalLib ''1'' (2000, 0) (1, 7) False ''21000'' ''5000'' None
      = None"
    using valid_one valid_21000 valid_5000 decimal_rate_small
    by (rule validateTxFee_raises_on_local_rate)
  from valid_tiny_amount valid_21000 valid_5000 decimal_fiat_5000 decimal_100 exceeds tiny
    valid_one valid_28572 decimals decimal_fee_28572 half high decimal_prints_small raise
  show ?thesis by (intro conjI)
qed

text \<open>
  C2, amended: take a call with well-formed \<open>amount\<close>, \<open>gasLimit\<close> and \<open>gasPrice\<close> in which the
  library reads every number on the way (the amount, the smallest amount, the fee, both
  rates and the 100 USD threshold) and the amount is not below 0.000001. If the fiat value
  of the fee exceeds 100 USD, or an ETH rate is passed that is truthy and positive, the
  value of 0.5 ETH at that rate is read and the fiat value of the fee exceeds it, the call
  returns the classification \<open>Error-Very-High-Tx-Fee\<close>.
\<close>

theorem very_high_fee:
  assumes "matchesValidInputRegex amount"
    and "matchesValidInputRegex gasLimit"
    and "matchesValidInputRegex gasPrice"
    and "baseUnits L amount = Some txAmount"
    and "baseUnits L ''0.000001'' = Some amountFloor"
    and "\<not> txAmount < amountFloor"
    and "txFeeOf L gasLimit gasPrice = Some txFee"
    and "assetRateOf L assetRateUSD = Some rateUSD"
    and "assetRateOf L assetRateFiat = Some rateFiat"
    and "baseUnits L ''100'' = Some limit"
    and "rateUSD * txFee > limit
         \<or> exceedsEthFraction L ethAssetRate (rateUSD * txFee) (numLiteral L ''0.5'')"
  shows "map_option resp_type (validateTxFee L amount assetRateUSD assetRateFiat isERC20 gasLimit
           gasPrice ethAssetRate) = Some Error_Very_High_Tx_Fee"
proof -
  have "(if rateUSD * txFee > limit then Some True
         else reachesEthFraction L ethAssetRate (rateUSD * txFee) (numLiteral L ''0.5''))
        = Some True"
    using assms(11) by (auto dest: reachesEthFraction_of_exceeds)
  then show ?thesis
    unfolding validateTxFee_type [OF assms(1-4) assms(7-9) assms(5)]
    using assms(6,10) by simp
qed

theorem very_high_fee_witness:
  "matchesValidInputRegex ''1'' \<and> matchesValidInputRegex ''21000''
   \<and> matchesValidInputRegex ''5000'' \<and> matchesValidInputRegex ''28572''
   \<and> baseUnits decimalLib ''1'' = Some 10000000000000000000000
   \<and> baseUnits decimalLib ''0.000001'' = Some 10000000000000000
   \<and> \<not> (10000000000000000000000 :: int) < 10000000000000000
   \<and> txFeeOf decimalLib ''21000'' ''5000'' = Some 105000000000000000
   \<and> assetRateOf decimalLib (2000, 0) = Some 20000000
   \<and> baseUnits decimalLib ''100'' = Some 1000000000000000000000000
   \<and> (20000000 :: int) * 105000000000000000 > 1000000000000000000000000
   \<and> map_option resp_type (validateTxFee decimalLib ''1'' (2000, 0) (2000, 0) False ''21000''
         ''5000'' None) = Some Error_Very_High_Tx_Fee
   \<and> txFeeOf decimalLib ''21000'' ''28572'' = Some 600012000000000000
   \<and> assetRateOf decimalLib (100, 0) = Some 1000000
   \<and> \<not> (1000000 :: int) * 600012000000000000 > 1000000000000000000000000
   \<and> exceedsEthFraction decimalLib (Some (100, 0)) (1000000 * 600012000000000000)
         (numLiteral decimalLib ''0.5'')
   \<and> map_option resp_type (validateTxFee decimalLib ''1'' (100, 0) (100, 0) False ''21000''
         ''28572'' (Some (100, 0))) = Some Error_Very_High_Tx_Fee"
proof -
  have above: "\<not> (10000000000000000000000 :: int) < 10000000000000000"
    by simp
  have fiat: "(20000000 :: int) * 105000000000000000 > 1000000000000000000000000"
    by simp
  then have h1: "(20000000 :: int) * 105000000000000000 > 1000000000000000000000000
      \<or> exceedsEthFraction decimalLib None (20000000 * 105000000000000000)
           (numLiteral decimalLib ''0.5'')"
    by (rule disjI1)
  note run1 = very_high_fee [OF valid_one valid_21000 valid_5000 decimal_one
      decimal_amount_floor above decimal_fee_5000 decimal_rate_2000 decimal_rate_2000
      decimal_100 h1, of False]
  have below: "\<not> (1000000 :: int) * 600012000000000000 > 1000000000000000000000000"
    by simp
  have eth: "exceedsEthFraction decimalLib (Some (100, 0)) (1000000 * 600012000000000000)
      (numLiteral decimalLib ''0.5'')"
    unfolding exceedsEthFraction_def option.case decimal_half_eth
    by (simp add: decimalLib_def)
  then have h2: "(1000000 :: int) * 600012000000000000 > 1000000000000000000000000
      \<or> exceedsEthFraction decimalLib (Some (100, 0)) (1000000 * 600012000000000000)
           (numLiteral decimalLib ''0.5'')"
    by (rule disjI2)
  note run2 = very_high_fee [OF valid_one valid_21000 valid_28572 decimal_one
      decimal_amount_floor above decimal_fee_28572 decimal_rate_100 decimal_rate_100
      decimal_100 h2, of False]
  from valid_one valid_21000 valid_5000 valid_28572 decimal_one decimal_amount_floor above
    decimal_fee_5000 decimal_rate_2000 decimal_100 fiat run1
    decimal_fee_28572 decimal_rate_100 below eth run2
  show ?thesis by (intro conjI)
qed

text \<open>
  C4: when \<open>amount\<close>, \<open>gasLimit\<close> or \<open>gasPrice\<close> does not match the input pattern, the call
  returns the record with classification \<open>Invalid\<close> and neither amount nor fee; no library
  function is called, so nothing can raise.
\<close>

theorem malformed_input_is_invalid:
  assumes "\<not> matchesValidInputRegex amount \<or> \<not> matchesValidInputRegex gasLimit
     \<or> \<not> matchesValidInputRegex gasPrice"
  shows "validateTxFee L amount assetRateUSD assetRateFiat isERC20 gasLimit gasPrice ethAssetRate
     = Some \<lparr>resp_type = Invalid, resp_amount = None, resp_fee = None\<rparr>"
  using assms by (rule validateTxFee_malformed)

theorem malformed_input_is_invalid_witness:
  "\<not> matchesValidInputRegex ''abc''
   \<and> validateTxFee decimalLib ''abc'' (2000, 0) (2000, 0) False ''21000'' ''5000'' None
       = Some \<lparr>resp_type = Invalid, resp_amount = None, resp_fee = None\<rparr>"
proof -
  have h: "\<not> matchesValidInputRegex ''abc'' \<or> \<not> matchesValidInputRegex ''21000''
      \<or> \<not> matchesValidInputRegex ''5000''"
    using invalid_abc by (rule disjI1)
  from invalid_abc
    malformed_input_is_invalid [OF h, of decimalLib "(2000, 0)" "(2000, 0)" False None]
  show ?thesis by (intro conjI)
qed

text \<open>
  C7, as stated, fails: the rates are read by \<open>bigNumberify\<close> before the amount is looked at,
  and a rate that prints in exponent notation is not read. With the decimal instance and
  the rate \<open>1e-7\<close>, the call with amount \<open>'0.0000001'\<close> raises.
\<close>

theorem tiny_amount_is_none_counterexample:
  "matchesValidInputRegex ''21000'' \<and> matchesValidInputRegex ''5000''
   \<and> numToString decimalLib (1, 7) = ''1e-7''
   \<and> convertedToBaseUnit decimalLib ''1e-7'' 4 = ''1e-70000''
   \<and> bigNumberify decimalLib ''1e-70000'' = None
   \<and> validateTxFee decimalLib ''0.0000001'' (1, 7) (2000, 0) False ''21000'' ''5000'' None
       = None"
proof -
  have shifted: "convertedToBaseUnit decimalLib ''1e-7'' 4 = ''1e-70000''"
    by (simp add: decimal_defs)
  have refused: "bigNumberify decimalLib ''1e-70000'' = None"
    by (simp add: decimal_defs)
  have raise: "validateTxFee decimalLib ''0.0000001'' (1, 7) (2000, 0) False ''21000'' ''5000''
      None = None"
    using valid_tiny_amount valid_21000 valid_5000 decimal_rate_small
    by (rule validateTxFee_raises_on_rate)
  from valid_21000 valid_5000 decimal_prints_small shifted refused raise
  show ?thesis by (intro conjI)
qed

text \<open>
  C7, amended: with amount \<open>'0.0000001'\<close> and well-formed \<open>gasLimit\<close> and \<open>gasPrice\<close> the call
  returns the classification \<open>None\<close> for every choice of the remaining arguments for which
  the library reads both rates and the fee (\<open>bigNumberify\<close> accepts the converted
  \<open>assetRateUSD\<close> and \<open>assetRateFiat\<close>, and the gas strings give a fee). Of the parts that are
  not under \<open>src/\<close> the proof uses that \<open>convertedToBaseUnit\<close> moves the decimal point of a
  well-formed text with no more fraction digits than decimals, that \<open>bigNumberify\<close> reads
  strings of decimal digits, and that assets have at least 3 decimals; that 0.0000001 is
  below 0.000001 in base units is derived from these.
\<close>

theorem tiny_amount_is_none:
  assumes "\<And>v d. 0 < d \<Longrightarrow> matchesValidInputRegex v \<Longrightarrow>
      length (fractionPartOf v) \<le> d \<Longrightarrow> convertedToBaseUnit L v d = shiftDecimalPoint v d"
    and "\<And>s. s \<noteq> [] \<Longrightarrow> list_all isDecimalDigit s \<Longrightarrow>
      bigNumberify L s = Some (int (parseDecimal s))"
    and "3 \<le> DEFAULT_ASSET_DECIMAL L"
    and "matchesValidInputRegex gasLimit"
    and "matchesValidInputRegex gasPrice"
    and "txFeeOf L gasLimit gasPrice \<noteq> None"
    and "assetRateOf L assetRateUSD \<noteq> None"
    and "assetRateOf L assetRateFiat \<noteq> None"
  shows "map_option resp_type (validateTxFee L ''0.0000001'' assetRateUSD assetRateFiat isERC20
           gasLimit gasPrice ethAssetRate) = Some Tx_None"
proof -
  from assms(6-8) obtain txFee rateUSD rateFiat where
    fee: "txFeeOf L gasLimit gasPrice = Some txFee"
    and usd: "assetRateOf L assetRateUSD = Some rateUSD"
    and fiat: "assetRateOf L assetRateFiat = Some rateFiat"
    by auto
  have amount: "baseUnits L ''0.0000001'' = Some (10 ^ (defaultDecimal L - 7))"
    by (rule baseUnits_tiny_amount) (simp_all add: assms(1,2,3))
  have floor: "baseUnits L ''0.000001'' = Some (10 ^ (defaultDecimal L - 6))"
    by (rule baseUnits_amount_floor) (simp_all add: assms(1,2,3))
  show ?thesis
    unfolding validateTxFee_type [OF valid_tiny_amount assms(4,5) amount fee usd fiat floor]
    using tiny_amount_below_floor [OF assms(3)] by simp
qed

theorem tiny_amount_is_none_witness:
  "3 \<le> DEFAULT_ASSET_DECIMAL decimalLib
   \<and> matchesValidInputRegex ''21000'' \<and> matchesValidInputRegex ''5000''
   \<and> txFeeOf decimalLib ''21000'' ''5000'' \<noteq> None
   \<and> assetRateOf decimalLib (2000, 0) \<noteq> None
   \<and> assetRateOf decimalLib (1800, 0) \<noteq> None
   \<and> map_option resp_type (validateTxFee decimalLib ''0.0000001'' (2000, 0) (1800, 0) True
         ''21000'' ''5000'' (Some (2000, 0))) = Some Tx_None"
proof -
  have fee: "txFeeOf decimalLib ''21000'' ''5000'' \<noteq> None"
    unfolding decimal_fee_5000 by simp
  have usd: "assetRateOf decimalLib (2000, 0) \<noteq> None"
    unfolding decimal_rate_2000 by simp
  have fiat: "assetRateOf decimalLib (1800, 0) \<noteq> None"
    unfolding decimal_rate_1800 by simp
  have run: "map_option resp_type (validateTxFee decimalLib ''0.0000001'' (2000, 0) (1800, 0)
      True ''21000'' ''5000'' (Some (2000, 0))) = Some Tx_None"
    by (rule tiny_amount_is_none)
      (simp_all only: decimalLib_converts decimalLib_reads_digits decimalLib_decimals
        valid_21000 valid_5000 fee usd fiat not_False_eq_True)
  from decimalLib_decimals valid_21000 valid_5000 fee usd fiat run
  show ?thesis by (intro conjI)
qed

text \<open>
  C10: with \<open>isERC20\<close> set the call never returns the classification \<open>Warning\<close>, whatever the
  library does. The witness also runs the same call with the flag cleared, where the
  classification is \<open>Warning\<close>.
\<close>

theorem erc20_never_warning:
  assumes "isERC20"
  shows "map_option resp_type (validateTxFee L amount assetRateUSD assetRateFiat isERC20 gasLimit
           gasPrice ethAssetRate) \<noteq> Some Warning"
proof
  assume "map_option resp_type (validateTxFee L amount assetRateUSD assetRateFiat isERC20
      gasLimit gasPrice ethAssetRate) = Some Warning"
  then obtain r where
    "validateTxFee L amount assetRateUSD assetRateFiat isERC20 gasLimit gasPrice ethAssetRate
       = Some r"
    and "resp_type r = Warning"
    by auto
  with assms show False
    by (auto dest: erc20_result_is_not_warning)
qed

theorem erc20_never_warning_witness:
  "map_option resp_type (validateTxFee decimalLib ''0.00001'' (2, 0) (2, 0) True ''21000''
      ''1'' None) \<noteq> Some Warning
   \<and> map_option resp_type (validateTxFee decimalLib ''0.00001'' (2, 0) (2, 0) True ''21000''
      ''1'' None) = Some Tx_None
   \<and> map_option resp_type (validateTxFee decimalLib ''0.00001'' (2, 0) (2, 0) False ''21000''
      ''1'' None) = Some Warning"
proof -
  have t: True ..
  note r = erc20_never_warning [OF t, of decimalLib "''0.00001''" "(2, 0)" "(2, 0)"
      "''21000''" "''1''" None]
  have n: "map_option resp_type (validateTxFee decimalLib ''0.00001'' (2, 0) (2, 0) True
      ''21000'' ''1'' None) = Some Tx_None"
    unfolding validateTxFee_type [OF valid_small_amount valid_21000 valid_one
        decimal_small_amount decimal_fee_1 decimal_rate_2 decimal_rate_2 decimal_amount_floor]
      decimal_100 decimal_25 decimal_5 no_eth_rate
    by simp
  have w: "map_option resp_type (validateTxFee decimalLib ''0.00001'' (2, 0) (2, 0) False
      ''21000'' ''1'' None) = Some Warning"
    unfolding validateTxFee_type [OF valid_small_amount valid_21000 valid_one
        decimal_small_amount decimal_fee_1 decimal_rate_2 decimal_rate_2 decimal_amount_floor]
      decimal_100 decimal_25 decimal_5 no_eth_rate decimal_fee_1_shifted
    by simp
  from r n w show ?thesis by (intro conjI)
qed

section \<open>JSON-RPC response validation: proofs\<close>

subsection \<open>Splitting a text\<close>

lemma splitOn_not_Nil: "splitOn sep s \<noteq> []"
  by (induction s) (auto split: list.splits)

lemma hd_splitOn_prefix: "prefix (hd (splitOn sep s)) s"
proof (induction s)
  case Nil
  show ?case by simp
next
  case (Cons c cs)
  then show ?case
    using splitOn_not_Nil [of sep cs] by (cases "splitOn sep cs") auto
qed

lemma splitOn_single: "splitOn sep s = [segment] \<Longrightarrow> segment = s"
proof (induction s arbitrary: segment)
  case Nil
  then show ?case by simp
next
  case (Cons c cs)
  show ?case
  proof (cases "c = sep")
    case True
    with Cons.prems splitOn_not_Nil [of sep cs] show ?thesis by simp
  next
    case False
    obtain x xs where seg: "splitOn sep cs = x # xs"
      using splitOn_not_Nil [of sep cs] by (cases "splitOn sep cs") auto
    with Cons.prems False have "xs = []" and "segment = c # x" by simp_all
    with seg Cons.IH [of x] show ?thesis by simp
  qed
qed

lemma last_splitOn_suffix: "suffix (last (splitOn sep s)) s"
proof (induction s)
  case Nil
  show ?case by simp
next
  case (Cons c cs)
  show ?case
  proof (cases "c = sep")
    case True
    with Cons splitOn_not_Nil [of sep cs] show ?thesis
      by (simp add: suffix_Cons)
  next
    case False
    obtain x xs where seg: "splitOn sep cs = x # xs"
      using splitOn_not_Nil [of sep cs] by (cases "splitOn sep cs") auto
    show ?thesis
    proof (cases xs)
      case Nil
      with seg have "x = cs" by (simp add: splitOn_single)
      with seg Nil False show ?thesis by simp
    next
      case (Cons a list)
      with seg Cons.IH False show ?thesis by (simp add: suffix_Cons)
    qed
  qed
qed

lemma firstLine_sublist: "sublist (firstLine text) text"
  unfolding firstLine_def by (rule prefix_imp_sublist) (rule hd_splitOn_prefix)

lemma afterLastColon_sublist: "sublist (afterLastColon line) line"
  unfolding afterLastColon_def by (rule suffix_imp_sublist) (rule last_splitOn_suffix)

lemma sublist_trans': "sublist xs ys \<Longrightarrow> sublist ys zs \<Longrightarrow> sublist xs zs"
  by (rule sublist_order.order_trans)

subsection \<open>The error message\<close>

lemma formatErrors_many_lines:
  assumes "error response = Some e" and "length (splitOn lineFeed (message e)) > 2"
  shows "formatErrors response apiType = afterLastColon (firstLine (message e))"
  using assms splitOn_not_Nil [of lineFeed "message e"]
  by (simp add: formatErrors_def Let_def afterLastColon_def firstLine_def hd_conv_nth)

lemma formatErrors_few_lines:
  assumes "error response = Some e" and "length (splitOn lineFeed (message e)) \<le> 2"
  shows "formatErrors response apiType =
     message e @ '' '' @ (case data e of Some d \<Rightarrow> d | None \<Rightarrow> [])"
  using assms by (simp add: formatErrors_def Let_def)

lemma formatErrors_contains_tail:
  assumes "error response = Some e"
  shows "sublist (afterLastColon (firstLine (message e))) (formatErrors response apiType)"
proof (cases "length (splitOn lineFeed (message e)) > 2")
  case True
  with assms show ?thesis by (simp add: formatErrors_many_lines)
next
  case False
  then have few: "length (splitOn lineFeed (message e)) \<le> 2" by simp
  have "sublist (afterLastColon (firstLine (message e))) (message e)"
    using afterLastColon_sublist firstLine_sublist by (rule sublist_trans')
  moreover have "sublist (message e) (formatErrors response apiType)"
    unfolding formatErrors_few_lines [OF assms few] by (rule sublist_append_rightI)
  ultimately show ?thesis by (rule sublist_trans')
qed

lemma formatErrors_contains_firstLine:
  assumes "error response = Some e" and "length (splitOn lineFeed (message e)) \<le> 2"
  shows "sublist (firstLine (message e)) (formatErrors response apiType)"
proof -
  have "sublist (message e) (formatErrors response apiType)"
    unfolding formatErrors_few_lines [OF assms] by (rule sublist_append_rightI)
  with firstLine_sublist show ?thesis by (rule sublist_trans')
qed

lemma no_fallback_raises:
  assumes "\<not> validate response RpcNode"
  shows "isValidEthServiceResponse validate response RpcNode apiName None =
     Inl (Error (formatErrors response (apiNameText apiName)))"
  using assms by (simp add: isValidEthServiceResponse_def isValidResult_def)

lemma validatorsWithoutFallback_cases:
  assumes "v \<in> set validatorsWithoutFallback"
  shows "\<exists>apiName. \<forall>validate response.
     v validate response = isValidEthServiceResponse validate response RpcNode apiName None"
proof -
  from assms consider
    "v = isValidGetBalance" | "v = isValidEstimateGas" | "v = isValidCallRequest"
    | "v = isValidTransactionCount" | "v = isValidTransactionByHash"
    | "v = isValidTransactionReceipt" | "v = isValidCurrentBlock" | "v = isValidRawTxApi"
    | "v = isValidSendTransaction" | "v = isValidSignMessage" | "v = isValidGetAccounts"
    | "v = isValidGetNetVersion" | "v = isValidRequestPermissions"
    | "v = isValidGetPermissions"
    unfolding validatorsWithoutFallback_def by auto
  then show ?thesis
  proof cases
    case 1 then show ?thesis unfolding isValidGetBalance_def by blast
  next
    case 2 then show ?thesis unfolding isValidEstimateGas_def by blast
  next
    case 3 then show ?thesis unfolding isValidCallRequest_def by blast
  next
    case 4 then show ?thesis unfolding isValidTransactionCount_def by blast
  next
    case 5 then show ?thesis unfolding isValidTransactionByHash_def by blast
  next
    case 6 then show ?thesis unfolding isValidTransactionReceipt_def by blast
  next
    case 7 then show ?thesis unfolding isValidCurrentBlock_def by blast
  next
    case 8 then show ?thesis unfolding isValidRawTxApi_def by blast
  next
    case 9 then show ?thesis unfolding isValidSendTransaction_def by blast
  next
    case 10 then show ?thesis unfolding isValidSignMessage_def by blast
  next
    case 11 then show ?thesis unfolding isValidGetAccounts_def by blast
  next
    case 12 then show ?thesis unfolding isValidGetNetVersion_def by blast
  next
    case 13 then show ?thesis unfolding isValidRequestPermissions_def by blast
  next
    case 14 then show ?thesis unfolding isValidGetPermissions_def by blast
  qed
qed

lemma validators_without_fallback_raise:
  assumes "\<not> validate response RpcNode" and "v \<in> set validatorsWithoutFallback"
  shows "\<exists>err. v validate response = Inl err"
proof -
  from validatorsWithoutFallback_cases [OF assms(2)] obtain apiName where
    "v validate response = isValidEthServiceResponse validate response RpcNode apiName None"
    by blast
  then show ?thesis
    using assms(1) by (simp add: isValidEthServiceResponse_def isValidResult_def)
qed

lemma stackTrace_lines:
  "splitOn lineFeed (''Error: User rejected'' @ [lineFeed] @ ''at sign'' @ [lineFeed] @ ''at send'')
     = [''Error: User rejected'', ''at sign'', ''at send'']"
  by (simp add: lineFeed_def)

lemma stackTrace_firstLine:
  "firstLine (''Error: User rejected'' @ [lineFeed] @ ''at sign'' @ [lineFeed] @ ''at send'')
     = ''Error: User rejected''"
  unfolding firstLine_def stackTrace_lines by simp

lemma stackTrace_tail: "afterLastColon ''Error: User rejected'' = '' User rejected''"
  by (simp add: afterLastColon_def)

lemma stackTrace_format: "formatErrors stackTraceResponse apiType = '' User rejected''"
proof -
  have e: "error stackTraceResponse = Some \<lparr>message = ''Error: User rejected'' @ [lineFeed]
      @ ''at sign'' @ [lineFeed] @ ''at send'', data = None\<rparr>"
    by (simp add: stackTraceResponse_def)
  have "length (splitOn lineFeed (message \<lparr>message = ''Error: User rejected'' @ [lineFeed]
      @ ''at sign'' @ [lineFeed] @ ''at send'', data = None\<rparr>)) > 2"
    by (simp only: RpcError.simps stackTrace_lines) simp
  from formatErrors_many_lines [OF e this, of apiType] show ?thesis
    by (simp only: RpcError.simps stackTrace_firstLine stackTrace_tail)
qed

subsection \<open>Claims about the RPC validators\<close>

text \<open>
  C3, as stated, fails: when the error message has more than two lines, the error raised
  carries only the part of the first line after its last colon. For the stack trace above,
  whose first line is \<open>Error: User rejected\<close>, \<open>isValidGetBalance\<close> raises an error with the
  message \<open> User rejected\<close>, which does not contain the first line.
\<close>

theorem rpc_error_message_counterexample:
  "\<not> rejectEverything stackTraceResponse RpcNode
   \<and> error stackTraceResponse \<noteq> None
   \<and> firstLine (message (the (error stackTraceResponse))) = ''Error: User rejected''
   \<and> (isValidGetBalance rejectEverything stackTraceResponse
        :: exn + (unit JsonRPCResponse, unit) served) = Inl (Error '' User rejected'')
   \<and> \<not> sublist ''Error: User rejected'' '' User rejected''"
proof -
  have r: "\<not> rejectEverything stackTraceResponse RpcNode"
    by (simp add: rejectEverything_def)
  have e: "error stackTraceResponse \<noteq> None"
    by (simp add: stackTraceResponse_def)
  have f: "firstLine (message (the (error stackTraceResponse))) = ''Error: User rejected''"
    by (simp only: stackTraceResponse_def JsonRPCResponse.simps RpcError.simps option.sel
        stackTrace_firstLine)
  have g: "(isValidGetBalance rejectEverything stackTraceResponse
        :: exn + (unit JsonRPCResponse, unit) served) = Inl (Error '' User rejected'')"
    unfolding isValidGetBalance_def
      no_fallback_raises [of rejectEverything stackTraceResponse, OF r] stackTrace_format ..
  have s: "\<not> sublist ''Error: User rejected'' '' User rejected''"
    using sublist_length_le [of "''Error: User rejected''" "'' User rejected''"] by auto
  from r e f g s show ?thesis by (intro conjI)
qed

text \<open>
  C3, amended: for a response that fails schema validation and carries an error message,
  every validator invoked without a fallback raises an error whose message contains the part
  of the first line of that error message after its last colon (the whole first line when
  it has no colon). When the error message has at most two lines the raised message
  contains the whole first line; when it has more, the raised message is exactly that part.
\<close>

theorem rpc_error_message:
  assumes "\<not> validate response RpcNode"
    and "error response = Some e"
    and "v \<in> set validatorsWithoutFallback"
  shows "\<exists>msg. v validate response = Inl (Error msg)
     \<and> sublist (afterLastColon (firstLine (message e))) msg
     \<and> (length (splitOn lineFeed (message e)) \<le> 2 \<longrightarrow> sublist (firstLine (message e)) msg)
     \<and> (length (splitOn lineFeed (message e)) > 2 \<longrightarrow>
          msg = afterLastColon (firstLine (message e)))"
proof -
  from validatorsWithoutFallback_cases [OF assms(3)] obtain apiName where
    v: "v validate response = isValidEthServiceResponse validate response RpcNode apiName None"
    by blast
  let ?msg = "formatErrors response (apiNameText apiName)"
  have "v validate response = Inl (Error ?msg)"
    unfolding v using assms(1) by (rule no_fallback_raises)
  moreover have "sublist (afterLastColon (firstLine (message e))) ?msg"
    by (rule formatErrors_contains_tail [OF assms(2)])
  moreover have "length (splitOn lineFeed (message e)) \<le> 2 \<longrightarrow>
      sublist (firstLine (message e)) ?msg"
    using formatErrors_contains_firstLine [OF assms(2)] by blast
  moreover have "length (splitOn lineFeed (message e)) > 2 \<longrightarrow>
      ?msg = afterLastColon (firstLine (message e))"
    using formatErrors_many_lines [OF assms(2)] by blast
  ultimately show ?thesis by blast
qed

theorem rpc_error_message_witness:
  "\<not> rejectEverything stackTraceResponse RpcNode
   \<and> error stackTraceResponse = Some \<lparr>message = ''Error: User rejected'' @ [lineFeed]
        @ ''at sign'' @ [lineFeed] @ ''at send'', data = None\<rparr>
   \<and> (isValidSignMessage
        :: unit validate \<Rightarrow> unit JsonRPCResponse \<Rightarrow> exn + (unit JsonRPCResponse, unit) served)
       \<in> set validatorsWithoutFallback
   \<and> (\<exists>msg. (isValidSignMessage rejectEverything stackTraceResponse
          :: exn + (unit JsonRPCResponse, unit) served) = Inl (Error msg)
        \<and> sublist '' User rejected'' msg)"
proof -
  have r: "\<not> rejectEverything stackTraceResponse RpcNode"
    by (simp add: rejectEverything_def)
  have e: "error stackTraceResponse = Some \<lparr>message = ''Error: User rejected'' @ [lineFeed]
        @ ''at sign'' @ [lineFeed] @ ''at send'', data = None\<rparr>"
    by (simp add: stackTraceResponse_def)
  have m: "(isValidSignMessage
      :: unit validate \<Rightarrow> unit JsonRPCResponse \<Rightarrow> exn + (unit JsonRPCResponse, unit) served)
      \<in> set validatorsWithoutFallback"
    by (simp add: validatorsWithoutFallback_def)
  from rpc_error_message [of rejectEverything stackTraceResponse _ isValidSignMessage, OF r e m]
  obtain msg where
    "(isValidSignMessage rejectEverything stackTraceResponse
          :: exn + (unit JsonRPCResponse, unit) served) = Inl (Error msg)"
    and "sublist (afterLastColon (firstLine (message \<lparr>message = ''Error: User rejected''
        @ [lineFeed] @ ''at sign'' @ [lineFeed] @ ''at send'', data = None\<rparr>))) msg"
    by blast
  then have "\<exists>msg. (isValidSignMessage rejectEverything stackTraceResponse
          :: exn + (unit JsonRPCResponse, unit) served) = Inl (Error msg)
        \<and> sublist '' User rejected'' msg"
    by (simp only: RpcError.simps stackTrace_firstLine stackTrace_tail) blast
  with r e m show ?thesis by (intro conjI)
qed

text \<open>
  C9: for a response that fails schema validation, \<open>isValidTokenBalance\<close> raises nothing and
  returns the fallback object \<open>{ result: 'Failed' }\<close>, whereas every validator without a
  fallback raises.
\<close>

theorem token_balance_fallback:
  assumes "\<not> validate response RpcNode"
  shows "isValidTokenBalance validate response = Inr (Fallback [(''result'', ''Failed'')])
     \<and> (\<forall>v \<in> set validatorsWithoutFallback. \<exists>err. v validate response = Inl err)"
proof
  show "isValidTokenBalance validate response = Inr (Fallback [(''result'', ''Failed'')])"
    using assms
    by (simp add: isValidTokenBalance_def isValidEthServiceResponse_def isValidResult_def)
  show "\<forall>v \<in> set validatorsWithoutFallback. \<exists>err. v validate response = Inl err"
    using assms by (blast dest: validators_without_fallback_raise)
qed

theorem token_balance_fallback_witness:
  "\<not> rejectEverything stackTraceResponse RpcNode
   \<and> isValidTokenBalance rejectEverything stackTraceResponse
       = Inr (Fallback [(''result'', ''Failed'')])"
proof -
  have r: "\<not> rejectEverything stackTraceResponse RpcNode"
    by (simp add: rejectEverything_def)
  from token_balance_fallback [of rejectEverything stackTraceResponse, OF r] have
    "isValidTokenBalance rejectEverything stackTraceResponse
       = Inr (Fallback [(''result'', ''Failed'')])"
    by (rule conjunct1)
  with r show ?thesis by (intro conjI)
qed

end
